theory Spec2Isabelle
  imports Complex_Main "HOL-Library.Multiset"
begin

section \<open>Lane Regressor: lines, segments and the running lane estimate\<close>

text \<open>
  A shallow embedding of the classes \<^verbatim>\<open>Line\<close>, \<^verbatim>\<open>Segment\<close>, \<^verbatim>\<open>Segments\<close> and
  \<^verbatim>\<open>LaneRegressor\<close> of \<^verbatim>\<open>P1.ipynb\<close>.

  Conventions of the embedding:
  \<^item> pixel coordinates are Python integers, modelled as \<^typ>\<open>int\<close>;
  \<^item> in the classes below Python floats (slopes, offsets, the smoothing factor) are idealised
    as \<^typ>\<open>real\<close>, so \<^verbatim>\<open>dy / dx\<close> is exact division there. What depends on the rounding
    of binary64 floats (the endpoints a line gives back, the smoothing sequence) is settled on
    Python's numbers, for which \<^verbatim>\<open>Line\<close> is given a second time further down;
  \<^item> a raised exception is the \<open>Inl\<close> branch of a sum, a returned value the \<open>Inr\<close> branch;
  \<^item> the dictionary \<^verbatim>\<open>self.lines\<close> is a map from keys to lines, and the in-place
    mutation of a stored \<^verbatim>\<open>Line\<close> is a map update at its key;
  \<^item> the image filters, the Hough transform, drawing and the RANSAC regressor are external
    libraries. The Hough output enters as the list of segments, and the regressor as a
    parameter (see \<open>regressor\<close> below).
\<close>

subsection \<open>Constants and exceptions\<close>

text \<open>\<^verbatim>\<open>sys.maxsize\<close> on a 64-bit platform.\<close>

definition maxsize :: real where
  "maxsize = 2 ^ 63 - 1"

datatype error = ValueError | ZeroDivisionError

text \<open>Python's \<^verbatim>\<open>int(r)\<close> on a float: truncation towards zero.\<close>

definition py_int :: "real \<Rightarrow> int" where
  "py_int r = (if 0 \<le> r then \<lfloor>r\<rfloor> else \<lceil>r\<rceil>)"

subsection \<open>Class \<^verbatim>\<open>Line\<close>\<close>

text \<open>A \<^verbatim>\<open>Line\<close> is the two-element list \<^verbatim>\<open>[m, b]\<close>; \<^verbatim>\<open>m\<close> and \<^verbatim>\<open>b\<close> are its properties.\<close>

record line =
  m :: real
  b :: real

text \<open>\<^verbatim>\<open>Line.__init__(self, x1, y1, x2, y2)\<close>\<close>

definition Line :: "int \<Rightarrow> int \<Rightarrow> int \<Rightarrow> int \<Rightarrow> line" where
  "Line xa ya xb yb =
     (let dx = xb - xa;
          dy = yb - ya;
          m' = (if dx \<noteq> 0 then real_of_int dy / real_of_int dx else maxsize);
          b' = real_of_int yb - real_of_int xb * m'
      in \<lparr>m = m', b = b'\<rparr>)"

text \<open>\<^verbatim>\<open>Line.__call__(self, x)\<close>\<close>

definition line_call :: "line \<Rightarrow> int \<Rightarrow> int" where
  "line_call self x = py_int (real_of_int x * m self + b self)"

text \<open>\<^verbatim>\<open>Line.update(self, line, \<lambda>=0.98)\<close>: the new parameters of \<^verbatim>\<open>self\<close>.\<close>

definition line_update :: "line \<Rightarrow> line \<Rightarrow> real \<Rightarrow> line" where
  "line_update self incoming lam =
     (let m0 = m self; b0 = b self;
          m_i = m incoming; b_i = b incoming
      in self\<lparr>m := lam * m0 + (1 - lam) * m_i,
              b := lam * b0 + (1 - lam) * b_i\<rparr>)"

text \<open>The default value of the keyword argument \<^verbatim>\<open>\<lambda>\<close>.\<close>

definition default_lambda :: real where
  "default_lambda = 98 / 100"

text \<open>\<open>n\<close> calls of \<^verbatim>\<open>self.update(incoming, lam)\<close> on the same line \<open>self\<close>.\<close>

abbreviation smoothed :: "line \<Rightarrow> real \<Rightarrow> nat \<Rightarrow> line \<Rightarrow> line" where
  "smoothed incoming lam n self \<equiv> ((\<lambda>l. line_update l incoming lam) ^^ n) self"

subsection \<open>Class \<^verbatim>\<open>Segment\<close>\<close>

record segment =
  x1 :: int
  y1 :: int
  x2 :: int
  y2 :: int

definition Segment :: "int \<Rightarrow> int \<Rightarrow> int \<Rightarrow> int \<Rightarrow> segment" where
  "Segment xa ya xb yb = \<lparr>x1 = xa, y1 = ya, x2 = xb, y2 = yb\<rparr>"

text \<open>The property \<^verbatim>\<open>Segment.slope\<close>\<close>

definition slope :: "segment \<Rightarrow> real" where
  "slope self =
     (let dx = x2 self - x1 self;
          dy = y2 self - y1 self
      in if dx \<noteq> 0 then real_of_int dy / real_of_int dx else maxsize)"

subsection \<open>Class \<^verbatim>\<open>Segments\<close>\<close>

text \<open>
  \<^verbatim>\<open>Segments.dataset(self)\<close>: the outer loop is the recursion over the list, the inner loop
  over \<^verbatim>\<open>range(x1, x2 + 1)\<close> is the map over \<open>[x1..x2]\<close>. The result is the pair of the
  column \<^verbatim>\<open>X\<close> and the vector \<^verbatim>\<open>y\<close>.
\<close>

fun dataset :: "segment list \<Rightarrow> int list \<times> int list" where
  "dataset [] = ([], [])"
| "dataset (s # ss) =
     (let line = Line (x1 s) (y1 s) (x2 s) (y2 s);
          xs = [x1 s..x2 s];
          (X, y) = dataset ss
      in (xs @ X, map (line_call line) xs @ y))"

text \<open>\<^verbatim>\<open>Segments.select(self, criterion)\<close>\<close>

definition select :: "segment list \<Rightarrow> (segment \<Rightarrow> bool) \<Rightarrow> segment list" where
  "select self criterion = filter criterion self"

subsection \<open>Class \<^verbatim>\<open>LaneRegressor\<close>\<close>

record lane_regressor =
  lines :: "string \<rightharpoonup> line"

text \<open>\<^verbatim>\<open>LaneRegressor.__init__\<close>\<close>

definition init_regressor :: lane_regressor where
  "init_regressor = \<lparr>lines = Map.empty\<rparr>"

text \<open>
  The external regressor: \<^verbatim>\<open>model.fit(X, y)\<close> either raises or leaves a fitted model,
  whose \<^verbatim>\<open>model.predict(x)[0]\<close> is the returned function. RANSAC is randomised, so every
  call of \<open>update\<close> gets a regressor of its own.
\<close>

type_synonym regressor = "int list \<Rightarrow> int list \<Rightarrow> error + (int \<Rightarrow> real)"

text \<open>\<^verbatim>\<open>X.min()\<close> and \<^verbatim>\<open>X.max()\<close> of numpy: \<^verbatim>\<open>ValueError\<close> on an empty array.\<close>

fun np_min :: "int list \<Rightarrow> error + int" where
  "np_min [] = Inl ValueError"
| "np_min (x # xs) = Inr (fold min xs x)"

fun np_max :: "int list \<Rightarrow> error + int" where
  "np_max [] = Inl ValueError"
| "np_max (x # xs) = Inr (fold max xs x)"

text \<open>
  The middle of \<^verbatim>\<open>LaneRegressor.update\<close>, from \<^verbatim>\<open>selected.dataset()\<close> to the construction of
  \<^verbatim>\<open>updating\<close>: the line fitted to a non-empty selection.
\<close>

definition fitted_line :: "regressor \<Rightarrow> segment list \<Rightarrow> error + line" where
  "fitted_line ransac selected =
     (let (X, y) = dataset selected in
      case ransac X y of
        Inl e \<Rightarrow> Inl e
      | Inr predict \<Rightarrow>
          (case np_min X of
             Inl e \<Rightarrow> Inl e
           | Inr xa \<Rightarrow>
               (case np_max X of
                  Inl e \<Rightarrow> Inl e
                | Inr xb \<Rightarrow>
                    (let ya = py_int (predict xa);
                         yb = py_int (predict xb)
                     in Inr (Line xa ya xb yb)))))"

text \<open>\<^verbatim>\<open>LaneRegressor.update(self, key, segments, criterion)\<close>\<close>

definition update ::
  "regressor \<Rightarrow> string \<Rightarrow> segment list \<Rightarrow> (segment \<Rightarrow> bool) \<Rightarrow> lane_regressor
     \<Rightarrow> error + lane_regressor" where
  "update ransac key segments criterion self =
     (let selected = select segments criterion in
      if length selected = 0 then Inr self
      else
        (case fitted_line ransac selected of
           Inl e \<Rightarrow> Inl e
         | Inr updating \<Rightarrow>
             (case lines self key of
                None \<Rightarrow> Inr (self\<lparr>lines := (lines self)(key \<mapsto> updating)\<rparr>)
              | Some line \<Rightarrow>
                  Inr (self\<lparr>lines := (lines self)(key \<mapsto>
                         line_update line updating default_lambda)\<rparr>))))"

text \<open>The two criteria passed by \<^verbatim>\<open>LaneRegressor.__call__\<close>, for the slope bound \<open>mt\<close>.\<close>

definition left_criterion :: "real \<Rightarrow> segment \<Rightarrow> bool" where
  "left_criterion mt s = (slope s < - mt)"

definition right_criterion :: "real \<Rightarrow> segment \<Rightarrow> bool" where
  "right_criterion mt s = (mt < slope s \<and> slope s < maxsize)"

text \<open>
  \<^verbatim>\<open>LaneRegressor.__call__(self, image)\<close>, for an image of shape \<open>(y_n, x_n)\<close> whose Hough
  transform gave \<open>segments\<close>. Drawing does not change the state and is left out.
\<close>

definition lane_call ::
  "regressor \<Rightarrow> regressor \<Rightarrow> int \<Rightarrow> int \<Rightarrow> segment list \<Rightarrow> lane_regressor
     \<Rightarrow> error + lane_regressor" where
  "lane_call ransac_l ransac_r y_n x_n segments self =
     (if x_n = 0 then Inl ZeroDivisionError
      else
        (let mt = real_of_int y_n / real_of_int x_n in
         case update ransac_l ''l'' segments (left_criterion mt) self of
           Inl e \<Rightarrow> Inl e
         | Inr self' \<Rightarrow> update ransac_r ''r'' segments (right_criterion mt) self'))"

text \<open>
  One frame of a clip, as \<open>lane_call\<close> needs it, and the frame loop of \<^verbatim>\<open>process\<close>:
  the same \<^verbatim>\<open>LaneRegressor\<close> is applied to every frame in order.
\<close>

record frame =
  ransac_left :: regressor
  ransac_right :: regressor
  height :: int
  width :: int
  hough :: "segment list"

fun process :: "frame list \<Rightarrow> lane_regressor \<Rightarrow> error + lane_regressor" where
  "process [] self = Inr self"
| "process (f # fs) self =
     (case lane_call (ransac_left f) (ransac_right f) (height f) (width f) (hough f) self of
        Inl e \<Rightarrow> Inl e
      | Inr self' \<Rightarrow> process fs self')"

text \<open>The slope bound \<^verbatim>\<open>m = y_n / x_n\<close> that \<open>lane_call\<close> computes for a frame.\<close>

abbreviation thresh :: "frame \<Rightarrow> real" where
  "thresh f \<equiv> real_of_int (height f) / real_of_int (width f)"

subsection \<open>Sample regressors\<close>

text \<open>
  Two regressors to run the model on concrete inputs; they are not part of the notebook.
  A successful linear fit predicts along some line \<open>y = k x + c\<close>. The first raises on fewer
  than two samples, as a consensus fit drawing minimal samples of two points does; the second
  never raises.
\<close>

definition line_regressor :: "real \<Rightarrow> real \<Rightarrow> regressor" where
  "line_regressor k c X y =
     (if length X < 2 then Inl ValueError else Inr (\<lambda>x. k * real_of_int x + c))"

definition total_regressor :: "real \<Rightarrow> real \<Rightarrow> regressor" where
  "total_regressor k c X y = Inr (\<lambda>x. k * real_of_int x + c)"

subsection \<open>Python's numbers\<close>

text \<open>
  Rounding of a real number to the nearest integer, ties to the even one, and to the nearest
  binary64 float: 53 significant bits, exponent at least \<open>-1022\<close> (so the subnormal floats are
  included), ties to the even significand. Magnitudes of \<open>2\<^sup>1\<^sup>0\<^sup>2\<^sup>4\<close> and more, where binary64
  has \<^verbatim>\<open>inf\<close>, are not modelled: the theorems bound their inputs. \<open>tiny\<close> is half the
  distance between two subnormal floats.
\<close>

definition rne :: "real \<Rightarrow> int" where
  "rne q =
     (let f = \<lfloor>q\<rfloor>; r = q - real_of_int f
      in if r < 1 / 2 then f else if 1 / 2 < r then f + 1 else if even f then f else f + 1)"

definition double :: "real \<Rightarrow> real" where
  "double x =
     (let e = max \<lfloor>log 2 \<bar>x\<bar>\<rfloor> (- 1022);
          ulp = 2 powr real_of_int (e - 52)
      in real_of_int (rne (x / ulp)) * ulp)"

definition tiny :: real where
  "tiny = 1 / 2 ^ 1075"

text \<open>
  A Python number is an \<^verbatim>\<open>int\<close>, exact and unbounded, or a \<^verbatim>\<open>float\<close>. An operation on two
  ints is exact; with a float operand the other one is converted (\<^verbatim>\<open>float(k)\<close>, correctly
  rounded) and the result is rounded. \<open>py_int_of\<close> is \<^verbatim>\<open>int(v)\<close>.
\<close>

datatype number = PyInt int | PyFloat real

fun to_float :: "number \<Rightarrow> real" where
  "to_float (PyInt k) = double (real_of_int k)"
| "to_float (PyFloat r) = r"

fun py_add :: "number \<Rightarrow> number \<Rightarrow> number" where
  "py_add (PyInt i) (PyInt j) = PyInt (i + j)"
| "py_add u v = PyFloat (double (to_float u + to_float v))"

fun py_sub :: "number \<Rightarrow> number \<Rightarrow> number" where
  "py_sub (PyInt i) (PyInt j) = PyInt (i - j)"
| "py_sub u v = PyFloat (double (to_float u - to_float v))"

fun py_mul :: "number \<Rightarrow> number \<Rightarrow> number" where
  "py_mul (PyInt i) (PyInt j) = PyInt (i * j)"
| "py_mul u v = PyFloat (double (to_float u * to_float v))"

fun py_int_of :: "number \<Rightarrow> int" where
  "py_int_of (PyInt k) = k"
| "py_int_of (PyFloat r) = py_int r"

text \<open>
  The class \<^verbatim>\<open>Line\<close> on Python's numbers, for integer arguments: \<^verbatim>\<open>__init__\<close> (where
  \<^verbatim>\<open>dy / dx\<close> is the correctly rounded quotient of two ints, and \<^verbatim>\<open>maxsize\<close> the int
  \<open>2\<^sup>6\<^sup>3 - 1\<close>), \<^verbatim>\<open>__call__\<close> and \<^verbatim>\<open>update\<close>.
\<close>

record pyline =
  pym :: number
  pyb :: number

definition PyLine :: "int \<Rightarrow> int \<Rightarrow> int \<Rightarrow> int \<Rightarrow> pyline" where
  "PyLine xa ya xb yb =
     (let dx = xb - xa;
          dy = yb - ya;
          m' = (if dx \<noteq> 0 then PyFloat (double (real_of_int dy / real_of_int dx))
                else PyInt (2 ^ 63 - 1));
          b' = py_sub (PyInt yb) (py_mul (PyInt xb) m')
      in \<lparr>pym = m', pyb = b'\<rparr>)"

definition pyline_call :: "pyline \<Rightarrow> int \<Rightarrow> int" where
  "pyline_call self x = py_int_of (py_add (py_mul (PyInt x) (pym self)) (pyb self))"

definition pyline_update :: "pyline \<Rightarrow> pyline \<Rightarrow> number \<Rightarrow> pyline" where
  "pyline_update self incoming lam =
     (let m0 = pym self; b0 = pyb self;
          m_i = pym incoming; b_i = pyb incoming
      in self\<lparr>pym := py_add (py_mul lam m0) (py_mul (py_sub (PyInt 1) lam) m_i),
              pyb := py_add (py_mul lam b0) (py_mul (py_sub (PyInt 1) lam) b_i)\<rparr>)"

section \<open>Lines\<close>

lemma py_int_of_int: "py_int (real_of_int k) = k"
  by (simp add: py_int_def)

lemma line_call_xb: "line_call (Line xa ya xb yb) xb = yb"
proof -
  have "real_of_int xb * m (Line xa ya xb yb) + b (Line xa ya xb yb) = real_of_int yb"
    by (simp add: Line_def Let_def)
  thus ?thesis by (simp add: line_call_def py_int_of_int del: of_int_add of_int_mult)
qed

lemma line_call_xa: "xa \<noteq> xb \<Longrightarrow> line_call (Line xa ya xb yb) xa = ya"
proof -
  assume ne: "xa \<noteq> xb"
  define d where "d = real_of_int xb - real_of_int xa"
  define e where "e = real_of_int yb - real_of_int ya"
  define r where "r = e / d"
  have d0: "d \<noteq> 0" using ne by (simp add: d_def)
  have dr: "d * r = e" using d0 by (simp add: r_def)
  have mm: "m (Line xa ya xb yb) = r"
    using ne by (simp add: Line_def Let_def d_def e_def r_def)
  have bb: "b (Line xa ya xb yb) = real_of_int yb - real_of_int xb * r"
    using ne by (simp add: Line_def Let_def d_def e_def r_def)
  have "real_of_int xa * m (Line xa ya xb yb) + b (Line xa ya xb yb)
      = real_of_int yb - (real_of_int xb - real_of_int xa) * r"
    by (simp add: mm bb algebra_simps)
  also have "\<dots> = real_of_int yb - e" using dr by (simp add: d_def)
  also have "\<dots> = real_of_int ya" by (simp add: e_def)
  finally show ?thesis by (simp add: line_call_def py_int_of_int)
qed

section \<open>Binary64 rounding\<close>

lemma rne_error: "\<bar>real_of_int (rne q) - q\<bar> \<le> 1 / 2"
proof -
  have "real_of_int \<lfloor>q\<rfloor> \<le> q" and "q < real_of_int \<lfloor>q\<rfloor> + 1" by linarith+
  thus ?thesis by (auto simp: rne_def Let_def)
qed

lemma rne_of_int: "rne (real_of_int k) = k"
  by (simp add: rne_def)

lemma double_zero: "double 0 = 0"
  by (simp add: double_def rne_def)

lemma double_ulp_error:
  "\<bar>double x - x\<bar> \<le> 2 powr real_of_int (max \<lfloor>log 2 \<bar>x\<bar>\<rfloor> (- 1022) - 52) / 2"
proof -
  define e where "e = max \<lfloor>log 2 \<bar>x\<bar>\<rfloor> (- 1022)"
  define ulp where "ulp = 2 powr real_of_int (e - 52)"
  have pos: "0 < ulp" by (simp add: ulp_def)
  have d: "double x = real_of_int (rne (x / ulp)) * ulp"
    by (simp add: double_def Let_def e_def ulp_def)
  have "double x - x = (real_of_int (rne (x / ulp)) - x / ulp) * ulp"
    using pos by (simp add: d algebra_simps)
  hence "\<bar>double x - x\<bar> = \<bar>real_of_int (rne (x / ulp)) - x / ulp\<bar> * ulp"
    using pos by (simp add: abs_mult)
  also have "\<dots> \<le> (1 / 2) * ulp"
    using pos rne_error [of "x / ulp"] by (intro mult_right_mono) simp_all
  finally show ?thesis by (simp add: ulp_def e_def)
qed

lemma tiny_powr: "2 powr real_of_int (- 1022 - 52) / 2 = tiny"
proof -
  have "(2::real) powr real_of_int (- 1074) = 1 / 2 ^ 1074"
    by (simp add: powr_minus_divide)
  thus ?thesis by (simp add: tiny_def)
qed

lemma double_error: "\<bar>double x - x\<bar> \<le> \<bar>x\<bar> / 2 ^ 53 + tiny"
proof (cases "x = 0")
  case True
  thus ?thesis by (simp add: double_zero tiny_def)
next
  case False
  hence ax: "0 < \<bar>x\<bar>" by simp
  show ?thesis
  proof (cases "- 1022 \<le> \<lfloor>log 2 \<bar>x\<bar>\<rfloor>")
    case True
    define e where "e = \<lfloor>log 2 \<bar>x\<bar>\<rfloor>"
    have m: "max \<lfloor>log 2 \<bar>x\<bar>\<rfloor> (- 1022) = e" using True by (simp add: e_def)
    have "real_of_int e \<le> log 2 \<bar>x\<bar>" by (simp add: e_def)
    hence le: "2 powr real_of_int e \<le> \<bar>x\<bar>"
      using ax by (simp add: le_log_iff)
    have "2 powr real_of_int (e - 52) / 2 = 2 powr real_of_int e / 2 ^ 53"
      by (simp add: powr_diff)
    also have "\<dots> \<le> \<bar>x\<bar> / 2 ^ 53" using le by (simp add: divide_right_mono)
    finally have "2 powr real_of_int (e - 52) / 2 \<le> \<bar>x\<bar> / 2 ^ 53" .
    moreover have "0 \<le> tiny" by (simp add: tiny_def)
    ultimately show ?thesis using double_ulp_error [of x] by (simp add: m)
  next
    case False
    hence m: "max \<lfloor>log 2 \<bar>x\<bar>\<rfloor> (- 1022) = - 1022" by simp
    have "0 \<le> \<bar>x\<bar> / 2 ^ 53" by simp
    thus ?thesis using double_ulp_error [of x] tiny_powr by (simp add: m)
  qed
qed

lemma double_at_exponent:
  assumes "2 powr real_of_int e \<le> \<bar>x\<bar>" and "\<bar>x\<bar> < 2 powr real_of_int (e + 1)" and "- 1022 \<le> e"
  shows "double x = real_of_int (rne (x / 2 powr real_of_int (e - 52))) * 2 powr real_of_int (e - 52)"
proof -
  have "0 < 2 powr real_of_int e" by simp
  with assms(1) have pos: "0 < \<bar>x\<bar>" by linarith
  have "\<lfloor>log 2 \<bar>x\<bar>\<rfloor> = e"
    using assms(1,2) pos by (simp add: floor_log_eq_powr_iff)
  thus ?thesis using assms(3) by (simp add: double_def Let_def)
qed

lemma double_eval:
  assumes "2 ^ 52 \<le> \<bar>x\<bar> * 2 ^ n" and "\<bar>x\<bar> * 2 ^ n < 2 ^ 53" and "n \<le> 1074"
  shows "double x = real_of_int (rne (x * 2 ^ n)) / 2 ^ n"
proof -
  define e where "e = 52 - int n"
  have p: "2 powr real_of_int (e - 52) = 1 / 2 ^ n"
    by (simp add: e_def powr_minus_divide powr_realpow)
  have q: "2 powr real_of_int e = 2 ^ 52 / 2 ^ n"
    by (simp add: e_def powr_diff powr_realpow)
  have "real_of_int (e + 1) = 53 - real n" by (simp add: e_def)
  hence r: "2 powr real_of_int (e + 1) = 2 ^ 53 / 2 ^ n"
    by (simp only: powr_diff) (simp add: powr_realpow)
  have "2 ^ 52 / 2 ^ n \<le> \<bar>x\<bar>"
    using assms(1) by (simp add: field_simps)
  hence 1: "2 powr real_of_int e \<le> \<bar>x\<bar>" by (simp only: q)
  have "\<bar>x\<bar> < 2 ^ 53 / 2 ^ n"
    using assms(2) by (simp add: field_simps)
  hence 2: "\<bar>x\<bar> < 2 powr real_of_int (e + 1)" by (simp only: r)
  have 3: "- 1022 \<le> e" using assms(3) by (simp add: e_def)
  have "double x = real_of_int (rne (x / (1 / 2 ^ n))) * (1 / 2 ^ n)"
    using double_at_exponent [OF 1 2 3] by (simp only: p)
  thus ?thesis by simp
qed

lemma double_of_int:
  assumes "\<bar>k\<bar> < 2 ^ 53"
  shows "double (real_of_int k) = real_of_int k"
proof (cases "k = 0")
  case True
  thus ?thesis by (simp add: double_zero)
next
  case False
  define e where "e = \<lfloor>log 2 \<bar>real_of_int k\<bar>\<rfloor>"
  have pos: "0 < \<bar>real_of_int k\<bar>" using False by simp
  have one: "1 \<le> \<bar>real_of_int k\<bar>" using False by (simp flip: of_int_abs)
  have lt: "\<bar>real_of_int k\<bar> < 2 ^ 53" using assms by (simp flip: of_int_abs)
  have e0: "0 \<le> e"
    unfolding e_def using one by simp
  have "log 2 \<bar>real_of_int k\<bar> < 53"
    using lt pos by (simp add: log_less_iff)
  hence e52: "e \<le> 52" unfolding e_def by linarith
  define j where "j = nat (52 - e)"
  have je: "e - 52 = - int j" using e52 by (simp add: j_def)
  have ulp: "2 powr real_of_int (e - 52) = 1 / 2 ^ j"
    by (simp add: je powr_minus_divide powr_realpow)
  have m: "max \<lfloor>log 2 \<bar>real_of_int k\<bar>\<rfloor> (- 1022) = e" using e0 by (simp add: e_def)
  have "real_of_int k / (1 / 2 ^ j) = real_of_int (k * 2 ^ j)" by simp
  hence "rne (real_of_int k / (1 / 2 ^ j)) = k * 2 ^ j" by (simp only: rne_of_int)
  moreover have "2 powr (real_of_int e - 52) = 1 / 2 ^ j" using ulp by simp
  ultimately show ?thesis by (simp add: double_def Let_def m)
qed

lemma tiny_nonneg: "0 \<le> tiny"
  by (simp add: tiny_def)

lemma tiny_small: "tiny \<le> 1 / 2 ^ 64"
proof -
  have "(2::real) ^ 64 \<le> 2 ^ 1075" by (rule power_increasing) simp_all
  thus ?thesis unfolding tiny_def by (simp only: frac_le zero_less_power zero_less_numeral order_refl zero_le_one)
qed

lemma double_error_bound:
  assumes "\<bar>x\<bar> \<le> B"
  shows "\<bar>double x - x\<bar> \<le> B / 2 ^ 53 + tiny"
proof -
  have "\<bar>x\<bar> / 2 ^ 53 \<le> B / 2 ^ 53" using assms by (simp add: divide_right_mono)
  with double_error [of x] show ?thesis by linarith
qed

lemma abs_mult_bound:
  fixes x y :: real
  assumes "\<bar>x\<bar> \<le> A" and "\<bar>y\<bar> \<le> B"
  shows "\<bar>x * y\<bar> \<le> A * B"
proof -
  have "\<bar>x\<bar> * \<bar>y\<bar> \<le> A * B" using assms by (intro mult_mono) simp_all
  thus ?thesis by (simp add: abs_mult)
qed

lemma abs_near:
  fixes a b :: real
  shows "\<bar>a - b\<bar> \<le> d \<Longrightarrow> \<bar>b\<bar> \<le> B \<Longrightarrow> \<bar>a\<bar> \<le> B + d"
  by linarith

lemma abs_diff_near:
  fixes y p d :: real
  shows "\<bar>y\<bar> \<le> Y \<Longrightarrow> \<bar>p\<bar> \<le> P \<Longrightarrow> \<bar>d - p\<bar> \<le> D \<Longrightarrow> \<bar>y - d\<bar> \<le> Y + P + D"
  by linarith

lemma abs_sum_near:
  fixes p c :: real
  shows "\<bar>p\<bar> \<le> P \<Longrightarrow> \<bar>dp - p\<bar> \<le> D \<Longrightarrow> \<bar>c\<bar> \<le> C \<Longrightarrow> \<bar>dc - c\<bar> \<le> E
    \<Longrightarrow> \<bar>dp + dc\<bar> \<le> P + D + C + E"
  by linarith

lemma abs_sum5:
  fixes p q r s t :: real
  shows "\<bar>p\<bar> \<le> P \<Longrightarrow> \<bar>q\<bar> \<le> Q \<Longrightarrow> \<bar>r\<bar> \<le> R \<Longrightarrow> \<bar>s\<bar> \<le> S \<Longrightarrow> \<bar>t\<bar> \<le> T
    \<Longrightarrow> \<bar>p + q + r - s + t\<bar> \<le> P + Q + R + S + T"
  by linarith

lemma reconstruction_error:
  fixes x xb yb r :: real
  assumes x: "\<bar>x\<bar> \<le> 2 ^ 20" and xb: "\<bar>xb\<bar> \<le> 2 ^ 20" and yb: "\<bar>yb\<bar> \<le> 2 ^ 20"
    and r: "\<bar>r\<bar> \<le> 2 ^ 21"
  shows "\<bar>double (double (x * double r) + double (yb - double (xb * double r)))
          - ((x - xb) * r + yb)\<bar> \<le> 1 / 16"
proof -
  define m where "m = double r"
  define e1 where "e1 = m - r"
  define p2 where "p2 = xb * m"
  define e2 where "e2 = double p2 - p2"
  define c where "c = yb - double p2"
  define e3 where "e3 = double c - c"
  define px where "px = x * m"
  define e4 where "e4 = double px - px"
  define s where "s = double px + double c"
  define e5 where "e5 = double s - s"
  note t = tiny_small tiny_nonneg
  have b1: "\<bar>e1\<bar> \<le> 1 / 2 ^ 31"
    using double_error_bound [OF r] t by (simp add: e1_def m_def)
  have "\<bar>m\<bar> \<le> 2 ^ 21 + 1 / 2 ^ 31"
    using b1 r unfolding e1_def by (rule abs_near)
  hence m22: "\<bar>m\<bar> \<le> 2 ^ 22" by simp
  have p2b: "\<bar>p2\<bar> \<le> 2 ^ 42"
    using abs_mult_bound [OF xb m22] by (simp add: p2_def)
  have b2: "\<bar>e2\<bar> \<le> 1 / 2 ^ 10"
    using double_error_bound [OF p2b] t by (simp add: e2_def)
  have "\<bar>c\<bar> \<le> 2 ^ 20 + 2 ^ 42 + 1 / 2 ^ 10"
    using yb p2b b2 unfolding c_def e2_def by (rule abs_diff_near)
  hence cb: "\<bar>c\<bar> \<le> 2 ^ 43" by simp
  have b3: "\<bar>e3\<bar> \<le> 1 / 2 ^ 9"
    using double_error_bound [OF cb] t by (simp add: e3_def)
  have pxb: "\<bar>px\<bar> \<le> 2 ^ 42"
    using abs_mult_bound [OF x m22] by (simp add: px_def)
  have b4: "\<bar>e4\<bar> \<le> 1 / 2 ^ 10"
    using double_error_bound [OF pxb] t by (simp add: e4_def)
  have "\<bar>s\<bar> \<le> 2 ^ 42 + 1 / 2 ^ 10 + 2 ^ 43 + 1 / 2 ^ 9"
    using pxb b4 cb b3 unfolding s_def e4_def e3_def by (rule abs_sum_near)
  hence sb: "\<bar>s\<bar> \<le> 2 ^ 44" by simp
  have b5: "\<bar>e5\<bar> \<le> 1 / 2 ^ 8"
    using double_error_bound [OF sb] t by (simp add: e5_def)
  have "\<bar>x - xb\<bar> \<le> 2 ^ 21" using x xb by simp
  from abs_mult_bound [OF this b1] have b6: "\<bar>(x - xb) * e1\<bar> \<le> 1 / 2 ^ 10" by simp
  have "double s - ((x - xb) * r + yb) = e5 + e4 + e3 - e2 + (x - xb) * e1"
    by (simp add: e5_def s_def e4_def px_def e3_def c_def e2_def p2_def e1_def algebra_simps)
  moreover have "\<bar>e5 + e4 + e3 - e2 + (x - xb) * e1\<bar>
      \<le> 1 / 2 ^ 8 + 1 / 2 ^ 10 + 1 / 2 ^ 9 + 1 / 2 ^ 10 + 1 / 2 ^ 10"
    using b5 b4 b3 b2 b6 by (rule abs_sum5)
  ultimately have "\<bar>double s - ((x - xb) * r + yb)\<bar> \<le> 1 / 16"
    by simp
  thus ?thesis by (simp add: s_def px_def c_def p2_def m_def)
qed

lemma py_int_near:
  assumes "\<bar>v - real_of_int y\<bar> < 1"
  shows "\<bar>py_int v - y\<bar> \<le> 1"
proof -
  from assms have lo: "real_of_int y - 1 < v" and hi: "v < real_of_int y + 1" by linarith+
  have 1: "y - 1 \<le> \<lfloor>v\<rfloor>" using lo le_floor_iff [of "y - 1" v] by simp
  have 2: "\<lfloor>v\<rfloor> < y + 1" using hi floor_less_iff [of v "y + 1"] by simp
  have 3: "y - 1 < \<lceil>v\<rceil>" using lo less_ceiling_iff [of "y - 1" v] by simp
  have 4: "\<lceil>v\<rceil> \<le> y + 1" using hi ceiling_le_iff [of v "y + 1"] by simp
  from 1 2 3 4 show ?thesis by (simp add: py_int_def)
qed

lemma tiny_le_ulp: "tiny \<le> 1 / 2 ^ 53"
proof -
  have "(1::real) / 2 ^ 64 \<le> 1 / 2 ^ 53" by simp
  with tiny_small show ?thesis by linarith
qed

lemma abs_scaled:
  fixes l x :: real
  assumes "0 \<le> l" and "l \<le> 1"
  shows "\<bar>l * x\<bar> \<le> \<bar>x\<bar>"
proof -
  have "\<bar>l * x\<bar> = l * \<bar>x\<bar>" using assms(1) by (simp add: abs_mult)
  also have "\<dots> \<le> 1 * \<bar>x\<bar>" using assms(2) by (intro mult_right_mono) simp_all
  finally show ?thesis by simp
qed

lemma smoothing_error:
  fixes l x c :: real
  assumes l0: "0 \<le> l" and l1: "l \<le> 1"
  shows "\<bar>double (double (l * x) + double (double (1 - l) * c)) - (l * x + (1 - l) * c)\<bar>
          \<le> (\<bar>x\<bar> + \<bar>c\<bar>) / 2 ^ 50 + 4 * tiny"
proof -
  define X where "X = \<bar>x\<bar> / 2 ^ 53"
  define C where "C = \<bar>c\<bar> / 2 ^ 53"
  define d1 where "d1 = double (l * x) - l * x"
  define t2 where "t2 = double (1 - l)"
  define d2 where "d2 = t2 - (1 - l)"
  define d3 where "d3 = double (t2 * c) - t2 * c"
  define s where "s = double (l * x) + double (t2 * c)"
  define d4 where "d4 = double s - s"
  note T0 = tiny_nonneg and TU = tiny_le_ulp
  have X0: "0 \<le> X" and XX: "X \<le> \<bar>x\<bar>" by (simp_all add: X_def field_simps)
  have C0: "0 \<le> C" and CC: "4 * C \<le> \<bar>c\<bar>" by (simp_all add: C_def field_simps)
  have b1: "\<bar>d1\<bar> \<le> X + tiny"
    using double_error_bound [OF abs_scaled [OF l0 l1, of x]] by (simp add: d1_def X_def)
  have "\<bar>1 - l\<bar> \<le> 1" using l0 l1 by simp
  from double_error_bound [OF this] have "\<bar>d2\<bar> \<le> 1 / 2 ^ 53 + tiny"
    by (simp add: d2_def t2_def)
  hence b2: "\<bar>d2\<bar> \<le> 2 / 2 ^ 53" using TU by linarith
  have "\<bar>t2 - (1 - l)\<bar> \<le> 1" using b2 unfolding d2_def by simp
  hence t2b: "\<bar>t2\<bar> \<le> 2" using l0 l1 by linarith
  have "\<bar>t2 * c\<bar> \<le> 2 * \<bar>c\<bar>"
    using abs_mult_bound [OF t2b order_refl, of c] by simp
  from double_error_bound [OF this] have b3: "\<bar>d3\<bar> \<le> 2 * C + tiny"
    by (simp add: d3_def C_def)
  have b2c: "\<bar>d2 * c\<bar> \<le> 2 * C"
    using abs_mult_bound [OF b2 order_refl, of c] by (simp add: C_def)
  have s_eq: "s = l * x + (1 - l) * c + d1 + d2 * c + d3"
    by (simp add: s_def d1_def d2_def d3_def algebra_simps)
  have lx: "\<bar>l * x\<bar> \<le> \<bar>x\<bar>" using l0 l1 by (rule abs_scaled)
  have lc: "\<bar>(1 - l) * c\<bar> \<le> \<bar>c\<bar>" using l0 l1 by (intro abs_scaled) simp_all
  have sb: "\<bar>s\<bar> \<le> 2 * \<bar>x\<bar> + 2 * \<bar>c\<bar> + 2 * tiny"
    using lx lc b1 b2c b3 XX CC unfolding s_eq by linarith
  from double_error_bound [OF sb]
  have "\<bar>d4\<bar> \<le> 2 * X + 2 * C + 2 * tiny / 2 ^ 53 + tiny"
    by (simp add: d4_def X_def C_def add_divide_distrib)
  moreover have "2 * tiny / 2 ^ 53 \<le> tiny" using T0 by simp
  ultimately have b4: "\<bar>d4\<bar> \<le> 2 * X + 2 * C + 2 * tiny" by linarith
  have "double s - (l * x + (1 - l) * c) = d4 + d1 + d2 * c + d3"
    by (simp add: d4_def s_eq)
  hence "\<bar>double s - (l * x + (1 - l) * c)\<bar> \<le> 8 * X + 8 * C + 4 * tiny"
    using b4 b1 b2c b3 X0 C0 by linarith
  moreover have "8 * X + 8 * C = (\<bar>x\<bar> + \<bar>c\<bar>) / 2 ^ 50"
    by (simp add: X_def C_def)
  ultimately show ?thesis by (simp add: s_def t2_def)
qed

section \<open>Lines on Python's numbers\<close>

lemma double_small_int:
  "\<bar>k\<bar> \<le> 2 ^ 20 \<Longrightarrow> double (real_of_int k) = real_of_int k"
  by (rule double_of_int) simp

lemma pyline_call_float:
  assumes "xa \<noteq> xb" and "\<bar>xb\<bar> \<le> 2 ^ 20" and "\<bar>yb\<bar> \<le> 2 ^ 20" and "\<bar>x\<bar> \<le> 2 ^ 20"
  shows "pyline_call (PyLine xa ya xb yb) x =
     py_int (double (double (real_of_int x * double (real_of_int (yb - ya) / real_of_int (xb - xa)))
       + double (real_of_int yb
           - double (real_of_int xb * double (real_of_int (yb - ya) / real_of_int (xb - xa))))))"
  using assms by (simp add: pyline_call_def PyLine_def Let_def double_small_int)

lemma slope_bound:
  fixes dx dy :: int
  assumes "dx \<noteq> 0" and "\<bar>dy\<bar> \<le> 2 ^ 21"
  shows "\<bar>real_of_int dy / real_of_int dx\<bar> \<le> 2 ^ 21"
proof -
  have "1 \<le> \<bar>real_of_int dx\<bar>" using assms(1) by (simp flip: of_int_abs)
  hence "\<bar>real_of_int dy\<bar> / \<bar>real_of_int dx\<bar> \<le> \<bar>real_of_int dy\<bar> / 1"
    by (intro divide_left_mono) simp_all
  moreover have "\<bar>real_of_int dy\<bar> \<le> 2 ^ 21" using assms(2) by (simp flip: of_int_abs)
  ultimately show ?thesis by simp
qed

lemma pyline_call_near:
  assumes ne: "xa \<noteq> xb"
    and bx: "\<bar>xa\<bar> \<le> 2 ^ 20" "\<bar>ya\<bar> \<le> 2 ^ 20" "\<bar>xb\<bar> \<le> 2 ^ 20" "\<bar>yb\<bar> \<le> 2 ^ 20"
    and x: "\<bar>x\<bar> \<le> 2 ^ 20"
    and y: "real_of_int y
        = (real_of_int x - real_of_int xb) * (real_of_int (yb - ya) / real_of_int (xb - xa))
          + real_of_int yb"
  shows "\<bar>pyline_call (PyLine xa ya xb yb) x - y\<bar> \<le> 1"
proof -
  define r where "r = real_of_int (yb - ya) / real_of_int (xb - xa)"
  have "\<bar>yb - ya\<bar> \<le> 2 ^ 21" using bx by simp
  with ne have r: "\<bar>r\<bar> \<le> 2 ^ 21" unfolding r_def by (intro slope_bound) simp_all
  have 1: "\<bar>real_of_int x\<bar> \<le> 2 ^ 20" using x by (simp flip: of_int_abs)
  have 2: "\<bar>real_of_int xb\<bar> \<le> 2 ^ 20" using bx(3) by (simp flip: of_int_abs)
  have 3: "\<bar>real_of_int yb\<bar> \<le> 2 ^ 20" using bx(4) by (simp flip: of_int_abs)
  from reconstruction_error [OF 1 2 3 r]
  have "\<bar>double (double (real_of_int x * double r)
            + double (real_of_int yb - double (real_of_int xb * double r)))
          - real_of_int y\<bar> < 1"
    by (simp only: y r_def [symmetric])
  hence "\<bar>py_int (double (double (real_of_int x * double r)
            + double (real_of_int yb - double (real_of_int xb * double r)))) - y\<bar> \<le> 1"
    by (rule py_int_near)
  thus ?thesis
    by (simp only: pyline_call_float [OF ne bx(3) bx(4) x] r_def)
qed

lemma exact_at_xa:
  assumes "xa \<noteq> (xb::int)"
  shows "real_of_int ya
      = (real_of_int xa - real_of_int xb) * (real_of_int (yb - ya) / real_of_int (xb - xa))
        + real_of_int yb"
proof -
  have "real_of_int xb - real_of_int xa \<noteq> 0" using assms by simp
  thus ?thesis by (simp add: field_simps)
qed

lemma sample_slope:
  "double (real_of_int (425 - 471) / real_of_int (323 - 272))
     = - (8124140504276189 / 9007199254740992)"
  by (simp add: double_eval [where n = 53] rne_def)

lemma sample_product_xb:
  "double (real_of_int 323 * - (8124140504276189 / 9007199254740992))
     = - (5125190200939861 / 17592186044416)"
  by (simp add: double_eval [where n = 44] rne_def)

lemma sample_offset:
  "double (real_of_int 425 - - (5125190200939861 / 17592186044416))
     = 3150467317454165 / 4398046511104"
  by (simp add: double_eval [where n = 43] rne_def)

lemma sample_product_xa:
  "double (real_of_int 272 * - (8124140504276189 / 9007199254740992))
     = - (8631899285793451 / 35184372088832)"
  by (simp add: double_eval [where n = 45] rne_def)

lemma sample_value_xa:
  "double (- (8631899285793451 / 35184372088832) + 3150467317454165 / 4398046511104)
     = 4142959813459967 / 8796093022208"
  by (simp add: double_eval [where n = 44] rne_def)

lemma sample_value_xb:
  "double (- (5125190200939861 / 17592186044416) + 3150467317454165 / 4398046511104)
     = 7476679068876799 / 17592186044416"
  by (simp add: double_eval [where n = 44] rne_def)

lemma sample_int_xa: "py_int (4142959813459967 / 8796093022208) = 470"
  by (simp add: py_int_def)

lemma sample_int_xb: "py_int (7476679068876799 / 17592186044416) = 424"
  by (simp add: py_int_def)

lemma sample_call_xa: "pyline_call (PyLine 272 471 323 425) 272 = 470"
proof -
  have "pyline_call (PyLine 272 471 323 425) 272 =
     py_int (double (double (real_of_int 272 * double (real_of_int (425 - 471) / real_of_int (323 - 272)))
       + double (real_of_int 425
           - double (real_of_int 323 * double (real_of_int (425 - 471) / real_of_int (323 - 272))))))"
    by (rule pyline_call_float) simp_all
  thus ?thesis
    by (simp only: sample_slope sample_product_xb sample_offset sample_product_xa sample_value_xa
        sample_int_xa)
qed

lemma sample_call_xb: "pyline_call (PyLine 272 471 323 425) 323 = 424"
proof -
  have "pyline_call (PyLine 272 471 323 425) 323 =
     py_int (double (double (real_of_int 323 * double (real_of_int (425 - 471) / real_of_int (323 - 272)))
       + double (real_of_int 425
           - double (real_of_int 323 * double (real_of_int (425 - 471) / real_of_int (323 - 272))))))"
    by (rule pyline_call_float) simp_all
  thus ?thesis
    by (simp only: sample_slope sample_product_xb sample_offset sample_value_xb sample_int_xb)
qed

text \<open>
  Claim C8, as the code has it. The claim says that the line through any two distinct points
  gives back both \<open>y\<close> values (within 1) at the two \<open>x\<close> values. For two points on a
  vertical (\<open>x1 = x2\<close>, \<open>y1 \<noteq> y2\<close>) the line has the slope \<open>maxsize\<close> and the offset
  \<open>y2 - x2 * maxsize\<close>, and its value at the common \<open>x\<close> is \<open>y2\<close>, not \<open>y1\<close>:
  for \<open>(0, 0)\<close> and \<open>(0, 10)\<close> it is \<open>10\<close>, in exact arithmetic and on Python's numbers
  (where this line is made of ints only).
\<close>

theorem C8_vertical_counterexample:
  "(0::int, 0::int) \<noteq> (0, 10) \<and> line_call (Line 0 0 0 10) 0 = 10
   \<and> \<not> \<bar>line_call (Line 0 0 0 10) 0 - 0\<bar> \<le> 1
   \<and> pyline_call (PyLine 0 0 0 10) 0 = 10
   \<and> \<not> \<bar>pyline_call (PyLine 0 0 0 10) 0 - 0\<bar> \<le> 1"
  by (simp add: line_call_def Line_def py_int_def maxsize_def pyline_call_def PyLine_def)

text \<open>
  Claim C8, amended. For two points with \<open>x1 \<noteq> x2\<close> and integer coordinates of magnitude at
  most \<open>2\<^sup>2\<^sup>0\<close>, the line through them, computed in binary64 floats as the code does, gives
  back \<open>y1\<close> at \<open>x1\<close> and \<open>y2\<close> at \<open>x2\<close>, within 1. For \<open>x1 = x2\<close> its value at the
  common \<open>x\<close> is \<open>y2\<close>.
\<close>

theorem C8_line_reconstruction:
  "(xa \<noteq> xb \<and> \<bar>xa\<bar> \<le> 2 ^ 20 \<and> \<bar>ya\<bar> \<le> 2 ^ 20 \<and> \<bar>xb\<bar> \<le> 2 ^ 20 \<and> \<bar>yb\<bar> \<le> 2 ^ 20 \<longrightarrow>
      \<bar>pyline_call (PyLine xa ya xb yb) xa - ya\<bar> \<le> 1
      \<and> \<bar>pyline_call (PyLine xa ya xb yb) xb - yb\<bar> \<le> 1)
   \<and> pyline_call (PyLine xa ya xa yb) xa = yb"
proof (intro conjI impI)
  assume h: "xa \<noteq> xb \<and> \<bar>xa\<bar> \<le> 2 ^ 20 \<and> \<bar>ya\<bar> \<le> 2 ^ 20 \<and> \<bar>xb\<bar> \<le> 2 ^ 20 \<and> \<bar>yb\<bar> \<le> 2 ^ 20"
  hence ne: "xa \<noteq> xb" and bx: "\<bar>xa\<bar> \<le> 2 ^ 20" "\<bar>ya\<bar> \<le> 2 ^ 20" "\<bar>xb\<bar> \<le> 2 ^ 20" "\<bar>yb\<bar> \<le> 2 ^ 20"
    by simp_all
  show "\<bar>pyline_call (PyLine xa ya xb yb) xa - ya\<bar> \<le> 1"
    using ne bx bx(1) exact_at_xa [OF ne] by (rule pyline_call_near)
  have "real_of_int yb
      = (real_of_int xb - real_of_int xb) * (real_of_int (yb - ya) / real_of_int (xb - xa))
        + real_of_int yb" by simp
  with ne bx bx(3) show "\<bar>pyline_call (PyLine xa ya xb yb) xb - yb\<bar> \<le> 1"
    by (rule pyline_call_near)
next
  show "pyline_call (PyLine xa ya xa yb) xa = yb"
    by (simp add: pyline_call_def PyLine_def)
qed

theorem C8_line_reconstruction_witness:
  "(272::int) \<noteq> 323 \<and> \<bar>272 :: int\<bar> \<le> 2 ^ 20 \<and> \<bar>471 :: int\<bar> \<le> 2 ^ 20 \<and> \<bar>323 :: int\<bar> \<le> 2 ^ 20
   \<and> \<bar>425 :: int\<bar> \<le> 2 ^ 20
   \<and> pyline_call (PyLine 272 471 323 425) 272 = 470
   \<and> pyline_call (PyLine 272 471 323 425) 323 = 424
   \<and> \<bar>pyline_call (PyLine 272 471 323 425) 272 - 471\<bar> \<le> 1
   \<and> \<bar>pyline_call (PyLine 272 471 323 425) 323 - 425\<bar> \<le> 1
   \<and> pyline_call (PyLine 3 5 3 6) 3 = 6"
  using C8_line_reconstruction [of 272 323 471 425] C8_line_reconstruction [of 3 3 5 6]
    sample_call_xa sample_call_xb
  by simp

section \<open>Smoothing\<close>

lemma line_update_m: "m (line_update l li lam) = lam * m l + (1 - lam) * m li"
  by (simp add: line_update_def)

lemma line_update_b: "b (line_update l li lam) = lam * b l + (1 - lam) * b li"
  by (simp add: line_update_def)


lemma step_m: "m (line_update l l0 lam) - m l0 = lam * (m l - m l0)"
  by (simp add: line_update_m algebra_simps)

lemma step_b: "b (line_update l l0 lam) - b l0 = lam * (b l - b l0)"
  by (simp add: line_update_b algebra_simps)

lemma smoothed_m: "m (smoothed l0 lam n l) - m l0 = lam ^ n * (m l - m l0)"
proof (induction n)
  case 0
  show ?case by simp
next
  case (Suc n)
  have "m (smoothed l0 lam (Suc n) l) - m l0 = lam * (m (smoothed l0 lam n l) - m l0)"
    by (simp add: step_m)
  also have "\<dots> = lam * (lam ^ n * (m l - m l0))"
    by (simp only: Suc.IH)
  finally show ?case by simp
qed

lemma smoothed_b: "b (smoothed l0 lam n l) - b l0 = lam ^ n * (b l - b l0)"
proof (induction n)
  case 0
  show ?case by simp
next
  case (Suc n)
  have "b (smoothed l0 lam (Suc n) l) - b l0 = lam * (b (smoothed l0 lam n l) - b l0)"
    by (simp add: step_b)
  also have "\<dots> = lam * (lam ^ n * (b l - b l0))"
    by (simp only: Suc.IH)
  finally show ?case by simp
qed

lemma geometric_shrinks:
  fixes d :: real
  assumes "0 \<le> lam" and "lam \<le> 1"
  shows "\<bar>lam ^ Suc n * d\<bar> \<le> \<bar>lam ^ n * d\<bar>"
proof -
  have "\<bar>lam ^ Suc n * d\<bar> = lam * \<bar>lam ^ n * d\<bar>"
    using assms by (simp add: abs_mult)
  also have "\<dots> \<le> 1 * \<bar>lam ^ n * d\<bar>"
    using assms by (intro mult_right_mono) simp_all
  finally show ?thesis by simp
qed

lemma geometric_same_sign:
  fixes d :: real
  assumes "0 \<le> lam"
  shows "0 \<le> (lam ^ j * d) * (lam ^ k * d)"
proof -
  have "(lam ^ j * d) * (lam ^ k * d) = lam ^ (j + k) * (d * d)"
    by (simp add: power_add algebra_simps)
  moreover have "0 \<le> lam ^ (j + k)" using assms by simp
  moreover have "0 \<le> d * d" by simp
  ultimately show ?thesis by (simp only: mult_nonneg_nonneg)
qed

lemma geometric_tends:
  fixes d c :: real
  assumes "0 \<le> lam" and "lam < 1" and "\<And>n. f n - c = lam ^ n * d"
  shows "f \<longlonglongrightarrow> c"
proof -
  have "(\<lambda>n. lam ^ n) \<longlonglongrightarrow> 0"
    using assms(1,2) by (rule LIMSEQ_realpow_zero)
  hence "(\<lambda>n. c + lam ^ n * d) \<longlonglongrightarrow> c + 0 * d"
    by (intro tendsto_add tendsto_mult tendsto_const)
  moreover have "f = (\<lambda>n. c + lam ^ n * d)"
  proof
    fix n
    show "f n = c + lam ^ n * d" using assms(3) [of n] by simp
  qed
  ultimately show ?thesis by simp
qed

text \<open>
  In exact arithmetic, for a smoothing factor in \<open>[0, 1]\<close> and a constant incoming line
  \<open>(m\<^sub>0, b\<^sub>0)\<close>, the differences after \<open>n\<close> updates are \<open>\<lambda>\<^sup>n\<close> times the starting ones: they
  do not grow, they keep their sign, and for \<open>\<lambda> < 1\<close> they tend to 0.
\<close>

lemma exact_smoothing_convergence:
  assumes "0 \<le> lam" and "lam \<le> 1"
  shows "\<bar>m (smoothed l0 lam (Suc n) l) - m l0\<bar> \<le> \<bar>m (smoothed l0 lam n l) - m l0\<bar>
       \<and> \<bar>b (smoothed l0 lam (Suc n) l) - b l0\<bar> \<le> \<bar>b (smoothed l0 lam n l) - b l0\<bar>
       \<and> 0 \<le> (m (smoothed l0 lam j l) - m l0) * (m (smoothed l0 lam k l) - m l0)
       \<and> 0 \<le> (b (smoothed l0 lam j l) - b l0) * (b (smoothed l0 lam k l) - b l0)
       \<and> m (smoothed l0 lam n l) - m l0 = lam ^ n * (m l - m l0)
       \<and> b (smoothed l0 lam n l) - b l0 = lam ^ n * (b l - b l0)
       \<and> (lam < 1 \<longrightarrow> (\<lambda>i. m (smoothed l0 lam i l)) \<longlonglongrightarrow> m l0
                    \<and> (\<lambda>i. b (smoothed l0 lam i l)) \<longlonglongrightarrow> b l0)"
proof -
  have 1: "\<bar>m (smoothed l0 lam (Suc n) l) - m l0\<bar> \<le> \<bar>m (smoothed l0 lam n l) - m l0\<bar>"
    unfolding smoothed_m using assms by (rule geometric_shrinks)
  have 2: "\<bar>b (smoothed l0 lam (Suc n) l) - b l0\<bar> \<le> \<bar>b (smoothed l0 lam n l) - b l0\<bar>"
    unfolding smoothed_b using assms by (rule geometric_shrinks)
  have 3: "0 \<le> (m (smoothed l0 lam j l) - m l0) * (m (smoothed l0 lam k l) - m l0)"
    unfolding smoothed_m using assms(1) by (rule geometric_same_sign)
  have 4: "0 \<le> (b (smoothed l0 lam j l) - b l0) * (b (smoothed l0 lam k l) - b l0)"
    unfolding smoothed_b using assms(1) by (rule geometric_same_sign)
  have 5: "(\<lambda>i. m (smoothed l0 lam i l)) \<longlonglongrightarrow> m l0" if "lam < 1"
    using assms(1) that smoothed_m by (rule geometric_tends)
  have 6: "(\<lambda>i. b (smoothed l0 lam i l)) \<longlonglongrightarrow> b l0" if "lam < 1"
    using assms(1) that smoothed_b by (rule geometric_tends)
  from 1 2 3 4 5 6 smoothed_m [where n = n] smoothed_b [where n = n] show ?thesis
    by blast
qed

subsection \<open>The update in binary64\<close>

lemma pyline_update_float:
  "pyline_update \<lparr>pym = PyFloat a, pyb = PyFloat a'\<rparr> \<lparr>pym = PyFloat c, pyb = PyFloat c'\<rparr> (PyFloat l)
     = \<lparr>pym = PyFloat (double (double (l * a) + double (double (1 - l) * c))),
        pyb = PyFloat (double (double (l * a') + double (double (1 - l) * c')))\<rparr>"
proof -
  have "double (real_of_int 1) = real_of_int 1" by (rule double_of_int) simp
  hence "double 1 = 1" by simp
  thus ?thesis by (simp add: pyline_update_def)
qed

lemma near_target:
  fixes r c a l E :: real
  assumes "\<bar>r - (l * a + (1 - l) * c)\<bar> \<le> E" and "0 \<le> l" and "l \<le> 1"
  shows "\<bar>(r - c) - l * (a - c)\<bar> \<le> E"
    and "\<bar>r - c\<bar> \<le> \<bar>a - c\<bar> + E"
    and "0 \<le> a - c \<longrightarrow> - E \<le> r - c"
    and "a - c \<le> 0 \<longrightarrow> r - c \<le> E"
proof -
  have eq: "(r - c) - l * (a - c) = r - (l * a + (1 - l) * c)" by (simp add: algebra_simps)
  show 1: "\<bar>(r - c) - l * (a - c)\<bar> \<le> E" using assms(1) by (simp only: eq)
  have 2: "\<bar>l * (a - c)\<bar> \<le> \<bar>a - c\<bar>" using assms(2,3) by (rule abs_scaled)
  show "\<bar>r - c\<bar> \<le> \<bar>a - c\<bar> + E" using 1 2 by linarith
  have 3: "0 \<le> a - c \<Longrightarrow> 0 \<le> l * (a - c)" using assms(2) by simp
  have 4: "a - c \<le> 0 \<Longrightarrow> l * (a - c) \<le> 0" using assms(2) by (simp add: mult_nonneg_nonpos)
  show "0 \<le> a - c \<longrightarrow> - E \<le> r - c" using 1 3 by linarith
  show "a - c \<le> 0 \<longrightarrow> r - c \<le> E" using 1 4 by linarith
qed

lemma literal_42: "double (42 / 10) = 4728779608739021 / 1125899906842624"
  by (simp add: double_eval [where n = 50] rne_def)

lemma literal_98: "double (98 / 100) = 2206763817411543 / 2251799813685248"
  by (simp add: double_eval [where n = 53] rne_def)

lemma literal_product:
  "double (2206763817411543 / 2251799813685248 * (4728779608739021 / 1125899906842624))
     = 289637751035265 / 70368744177664"
  by (simp add: double_eval [where n = 50] rne_def)

lemma literal_complement:
  "double (1 - 2206763817411543 / 2251799813685248) = 45035996273705 / 2251799813685248"
  by (simp add: double_eval [where n = 58] rne_def)

lemma literal_product_incoming:
  "double (45035996273705 / 2251799813685248 * (4728779608739021 / 1125899906842624))
     = 189151184349561 / 2251799813685248"
  by (simp add: double_eval [where n = 56] rne_def)

lemma literal_sum:
  "double (289637751035265 / 70368744177664 + 189151184349561 / 2251799813685248)
     = 1182194902184755 / 281474976710656"
  by (simp add: double_eval [where n = 50] rne_def)

lemma double_half: "double (1 / 2) = 1 / 2"
  by (simp add: double_eval [where n = 53] rne_def)

lemma double_numeral_small:
  "\<bar>numeral k :: int\<bar> < 2 ^ 53 \<Longrightarrow> double (numeral k) = numeral k"
  using double_of_int [of "numeral k"] by simp

text \<open>
  Claim C6, as the code has it. The claim says that no update increases \<open>|m - m\<^sub>0|\<close>. The
  Python literals \<^verbatim>\<open>4.2\<close> and \<^verbatim>\<open>0.98\<close> are the two floats below. A line that is already at
  \<open>m = m\<^sub>0 = 4.2\<close> is moved by one update with \<open>\<lambda> = 0.98\<close> to the float
  \<open>1182194902184755 / 2\<^sup>4\<^sup>8\<close> (printed \<^verbatim>\<open>4.199999999999999\<close>): \<open>|m - m\<^sub>0|\<close> grows from 0 to
  \<open>2\<^sup>-\<^sup>5\<^sup>0\<close>.
\<close>

theorem C6_rounding_counterexample:
  "double (42 / 10) = 4728779608739021 / 1125899906842624
   \<and> double (98 / 100) = 2206763817411543 / 2251799813685248
   \<and> pyline_update
        \<lparr>pym = PyFloat (4728779608739021 / 1125899906842624),
          pyb = PyFloat (4728779608739021 / 1125899906842624)\<rparr>
        \<lparr>pym = PyFloat (4728779608739021 / 1125899906842624),
          pyb = PyFloat (4728779608739021 / 1125899906842624)\<rparr>
        (PyFloat (2206763817411543 / 2251799813685248))
      = \<lparr>pym = PyFloat (1182194902184755 / 281474976710656),
          pyb = PyFloat (1182194902184755 / 281474976710656)\<rparr>
   \<and> \<not> \<bar>1182194902184755 / 281474976710656 - 4728779608739021 / 1125899906842624 :: real\<bar>
        \<le> \<bar>4728779608739021 / 1125899906842624 - 4728779608739021 / 1125899906842624\<bar>"
proof -
  have u: "pyline_update
        \<lparr>pym = PyFloat (4728779608739021 / 1125899906842624),
          pyb = PyFloat (4728779608739021 / 1125899906842624)\<rparr>
        \<lparr>pym = PyFloat (4728779608739021 / 1125899906842624),
          pyb = PyFloat (4728779608739021 / 1125899906842624)\<rparr>
        (PyFloat (2206763817411543 / 2251799813685248))
      = \<lparr>pym = PyFloat (1182194902184755 / 281474976710656),
          pyb = PyFloat (1182194902184755 / 281474976710656)\<rparr>"
    by (simp only: pyline_update_float literal_product literal_complement literal_product_incoming literal_sum)
  have n: "\<not> \<bar>1182194902184755 / 281474976710656 - 4728779608739021 / 1125899906842624 :: real\<bar>
        \<le> \<bar>4728779608739021 / 1125899906842624 - 4728779608739021 / 1125899906842624\<bar>"
    by simp
  from literal_42 literal_98 u n show ?thesis by (intro conjI)
qed

text \<open>
  Claim C6, amended. For a smoothing factor \<open>\<lambda>\<close> in \<open>[0, 1]\<close> and float parameters of magnitude
  at most \<open>2\<^sup>1\<^sup>0\<^sup>0\<^sup>0\<close> (so that no operation overflows), one update with the incoming line
  \<open>(m\<^sub>0, b\<^sub>0)\<close> leaves \<open>m'\<close> with \<open>|(m' - m\<^sub>0) - \<lambda> (m - m\<^sub>0)| \<le> E\<close>, where
  \<open>E = (|m| + |m\<^sub>0|) / 2\<^sup>5\<^sup>0 + 4 tiny\<close> bounds the rounding of the four operations. Hence
  \<open>|m' - m\<^sub>0| \<le> |m - m\<^sub>0| + E\<close>, and \<open>m'\<close> is on the side of \<open>m\<^sub>0\<close> where \<open>m\<close> was or within
  \<open>E\<close> of \<open>m\<^sub>0\<close>. The same holds for \<open>b\<close>.
\<close>

theorem C6_smoothing_step:
  assumes "0 \<le> l" and "l \<le> 1"
    and "\<bar>a\<bar> \<le> 2 ^ 1000" and "\<bar>c\<bar> \<le> 2 ^ 1000" and "\<bar>a'\<bar> \<le> 2 ^ 1000" and "\<bar>c'\<bar> \<le> 2 ^ 1000"
  shows "\<exists>r r'.
      pyline_update \<lparr>pym = PyFloat a, pyb = PyFloat a'\<rparr> \<lparr>pym = PyFloat c, pyb = PyFloat c'\<rparr>
        (PyFloat l) = \<lparr>pym = PyFloat r, pyb = PyFloat r'\<rparr>
      \<and> \<bar>(r - c) - l * (a - c)\<bar> \<le> (\<bar>a\<bar> + \<bar>c\<bar>) / 2 ^ 50 + 4 * tiny
      \<and> \<bar>(r' - c') - l * (a' - c')\<bar> \<le> (\<bar>a'\<bar> + \<bar>c'\<bar>) / 2 ^ 50 + 4 * tiny
      \<and> \<bar>r - c\<bar> \<le> \<bar>a - c\<bar> + ((\<bar>a\<bar> + \<bar>c\<bar>) / 2 ^ 50 + 4 * tiny)
      \<and> \<bar>r' - c'\<bar> \<le> \<bar>a' - c'\<bar> + ((\<bar>a'\<bar> + \<bar>c'\<bar>) / 2 ^ 50 + 4 * tiny)
      \<and> (0 \<le> a - c \<longrightarrow> - ((\<bar>a\<bar> + \<bar>c\<bar>) / 2 ^ 50 + 4 * tiny) \<le> r - c)
      \<and> (a - c \<le> 0 \<longrightarrow> r - c \<le> (\<bar>a\<bar> + \<bar>c\<bar>) / 2 ^ 50 + 4 * tiny)
      \<and> (0 \<le> a' - c' \<longrightarrow> - ((\<bar>a'\<bar> + \<bar>c'\<bar>) / 2 ^ 50 + 4 * tiny) \<le> r' - c')
      \<and> (a' - c' \<le> 0 \<longrightarrow> r' - c' \<le> (\<bar>a'\<bar> + \<bar>c'\<bar>) / 2 ^ 50 + 4 * tiny)"
proof -
  define r where "r = double (double (l * a) + double (double (1 - l) * c))"
  define r' where "r' = double (double (l * a') + double (double (1 - l) * c'))"
  have u: "pyline_update \<lparr>pym = PyFloat a, pyb = PyFloat a'\<rparr> \<lparr>pym = PyFloat c, pyb = PyFloat c'\<rparr>
        (PyFloat l) = \<lparr>pym = PyFloat r, pyb = PyFloat r'\<rparr>"
    by (simp only: pyline_update_float r_def r'_def)
  have e: "\<bar>r - (l * a + (1 - l) * c)\<bar> \<le> (\<bar>a\<bar> + \<bar>c\<bar>) / 2 ^ 50 + 4 * tiny"
    unfolding r_def using assms(1,2) by (rule smoothing_error)
  have e': "\<bar>r' - (l * a' + (1 - l) * c')\<bar> \<le> (\<bar>a'\<bar> + \<bar>c'\<bar>) / 2 ^ 50 + 4 * tiny"
    unfolding r'_def using assms(1,2) by (rule smoothing_error)
  from u near_target [OF e assms(1,2)] near_target [OF e' assms(1,2)]
  show ?thesis by blast
qed

theorem C6_smoothing_step_witness:
  "(0::real) \<le> 1 / 2 \<and> (1 / 2 :: real) \<le> 1
   \<and> \<bar>6 :: real\<bar> \<le> 2 ^ 1000 \<and> \<bar>2 :: real\<bar> \<le> 2 ^ 1000 \<and> \<bar>- 2 :: real\<bar> \<le> 2 ^ 1000
   \<and> pyline_update \<lparr>pym = PyFloat 6, pyb = PyFloat (- 2)\<rparr> \<lparr>pym = PyFloat 2, pyb = PyFloat 2\<rparr>
        (PyFloat (1 / 2)) = \<lparr>pym = PyFloat 4, pyb = PyFloat 0\<rparr>
   \<and> \<bar>(4 - 2) - 1 / 2 * (6 - 2)\<bar> \<le> (\<bar>6\<bar> + \<bar>2\<bar>) / 2 ^ 50 + 4 * tiny
   \<and> \<bar>4 - 2 :: real\<bar> \<le> \<bar>6 - 2\<bar> + ((\<bar>6\<bar> + \<bar>2\<bar>) / 2 ^ 50 + 4 * tiny)"
proof -
  have d3: "double 3 = 3" and d4: "double 4 = 4"
    by (simp_all add: double_numeral_small)
  have d1: "double 1 = 1" using double_of_int [of 1] by simp
  have dm: "double (- 1) = - 1" using double_of_int [of "- 1"] by simp
  have u: "pyline_update \<lparr>pym = PyFloat 6, pyb = PyFloat (- 2)\<rparr> \<lparr>pym = PyFloat 2, pyb = PyFloat 2\<rparr>
        (PyFloat (1 / 2)) = \<lparr>pym = PyFloat 4, pyb = PyFloat 0\<rparr>"
    by (simp add: pyline_update_float double_half d3 d1 d4 dm double_zero)
  from C6_smoothing_step [where l = "1 / 2" and a = 6 and c = 2 and a' = "- 2" and c' = 2]
  obtain r r' where
    "pyline_update \<lparr>pym = PyFloat 6, pyb = PyFloat (- 2)\<rparr> \<lparr>pym = PyFloat 2, pyb = PyFloat 2\<rparr>
        (PyFloat (1 / 2)) = \<lparr>pym = PyFloat r, pyb = PyFloat r'\<rparr>"
    and "\<bar>(r - 2) - 1 / 2 * (6 - 2)\<bar> \<le> (\<bar>6\<bar> + \<bar>2\<bar>) / 2 ^ 50 + 4 * tiny"
    and "\<bar>r - 2\<bar> \<le> \<bar>6 - 2\<bar> + ((\<bar>6\<bar> + \<bar>2\<bar>) / 2 ^ 50 + 4 * tiny)"
    by auto
  with u have "\<bar>(4 - 2) - 1 / 2 * (6 - 2)\<bar> \<le> (\<bar>6\<bar> + \<bar>2\<bar>) / 2 ^ 50 + 4 * tiny"
    and "\<bar>4 - 2 :: real\<bar> \<le> \<bar>6 - 2\<bar> + ((\<bar>6\<bar> + \<bar>2\<bar>) / 2 ^ 50 + 4 * tiny)"
    by simp_all
  with u show ?thesis by simp
qed

section \<open>Slopes and classification\<close>

lemma maxsize_pos: "0 < maxsize"
  by (simp add: maxsize_def)

lemma slope_vertical: "x1 s = x2 s \<Longrightarrow> slope s = maxsize"
  by (simp add: slope_def)

text \<open>
  Claim C7. A segment with \<open>x1 = x2\<close> has the slope \<open>maxsize\<close>, one positive constant,
  whatever \<open>y1\<close> and \<open>y2\<close> are and in whichever order.
\<close>

theorem C7_sentinel_slope:
  "slope (Segment xa ya xa yb) = maxsize \<and> slope (Segment xa yb xa ya) = maxsize \<and> 0 < maxsize"
  by (simp add: slope_def Segment_def maxsize_def)

lemma set_select: "set (select segs c) = {s \<in> set segs. c s}"
  by (simp add: select_def)

lemma criteria_exclusive: "0 \<le> mt \<Longrightarrow> \<not> (left_criterion mt s \<and> right_criterion mt s)"
  by (auto simp: left_criterion_def right_criterion_def)

lemma mset_three_way:
  "(\<And>x. \<not> (P x \<and> Q x)) \<Longrightarrow>
   mset (filter P xs) + mset (filter Q xs) + mset (filter (\<lambda>x. \<not> P x \<and> \<not> Q x) xs) = mset xs"
  by (induction xs) auto

text \<open>
  Claim C2. For positive frame dimensions and \<open>mt = y_n / x_n\<close>, a segment of the input is
  in the left selection iff its slope is below \<open>- mt\<close>, and in the right selection iff its
  slope is above \<open>mt\<close> and below \<open>maxsize\<close>. The two selections are disjoint, and with
  the segments in neither (the dropped ones) they make up the input, each occurrence
  counted once.
\<close>

theorem C2_classification_partition:
  assumes "0 < x_n" and "0 < y_n" and mt: "mt = real_of_int y_n / real_of_int x_n"
    and l: "left = select segs (left_criterion mt)"
    and r: "right = select segs (right_criterion mt)"
    and d: "dropped = filter (\<lambda>s. s \<notin> set left \<and> s \<notin> set right) segs"
  shows "(\<forall>s \<in> set segs. (s \<in> set left \<longleftrightarrow> slope s < - mt)
                       \<and> (s \<in> set right \<longleftrightarrow> mt < slope s \<and> slope s < maxsize))
       \<and> set left \<subseteq> set segs \<and> set right \<subseteq> set segs
       \<and> set left \<inter> set right = {}
       \<and> set left \<inter> set dropped = {} \<and> set right \<inter> set dropped = {}
       \<and> set left \<union> set right \<union> set dropped = set segs
       \<and> mset left + mset right + mset dropped = mset segs"
proof -
  have pos: "0 \<le> mt" using assms(1,2) mt by simp
  have ex: "\<And>s. \<not> (left_criterion mt s \<and> right_criterion mt s)"
    using criteria_exclusive [OF pos] by blast
  have dd: "dropped = filter (\<lambda>s. \<not> left_criterion mt s \<and> \<not> right_criterion mt s) segs"
    unfolding d l r by (rule filter_cong) (auto simp: set_select)
  have a: "\<forall>s \<in> set segs. (s \<in> set left \<longleftrightarrow> slope s < - mt)
                       \<and> (s \<in> set right \<longleftrightarrow> mt < slope s \<and> slope s < maxsize)"
    by (simp add: l r set_select left_criterion_def right_criterion_def)
  have b: "set left \<subseteq> set segs" "set right \<subseteq> set segs"
    by (auto simp: l r set_select)
  have c: "set left \<inter> set right = {}"
    using ex by (auto simp: l r set_select)
  have e: "set left \<inter> set dropped = {}" "set right \<inter> set dropped = {}"
    by (auto simp: d)
  have f: "set left \<union> set right \<union> set dropped = set segs"
    using b by (auto simp: d)
  have g: "mset left + mset right + mset dropped = mset segs"
    unfolding dd l r select_def by (rule mset_three_way) (rule ex)
  from a b c e f g show ?thesis by blast
qed

theorem C2_classification_partition_witness:
  "(0::int) < 2 \<and> (0::int) < 1
   \<and> select [Segment 0 0 2 (- 4), Segment 0 0 2 4, Segment 0 0 4 1, Segment 3 0 3 5]
        (left_criterion (1 / 2)) = [Segment 0 0 2 (- 4)]
   \<and> select [Segment 0 0 2 (- 4), Segment 0 0 2 4, Segment 0 0 4 1, Segment 3 0 3 5]
        (right_criterion (1 / 2)) = [Segment 0 0 2 4]
   \<and> set [Segment 0 0 2 (- 4)] \<inter> set [Segment 0 0 2 4] = {}
   \<and> mset [Segment 0 0 2 (- 4)] + mset [Segment 0 0 2 4]
        + mset [Segment 0 0 4 1, Segment 3 0 3 5]
      = mset [Segment 0 0 2 (- 4), Segment 0 0 2 4, Segment 0 0 4 1, Segment 3 0 3 5]"
proof -
  let ?segs = "[Segment 0 0 2 (- 4), Segment 0 0 2 4, Segment 0 0 4 1, Segment 3 0 3 5]"
  have l: "[Segment 0 0 2 (- 4)] = select ?segs (left_criterion (1 / 2))"
    by (simp add: select_def left_criterion_def slope_def Segment_def maxsize_def)
  have r: "[Segment 0 0 2 4] = select ?segs (right_criterion (1 / 2))"
    by (simp add: select_def right_criterion_def slope_def Segment_def maxsize_def)
  have d: "[Segment 0 0 4 1, Segment 3 0 3 5]
      = filter (\<lambda>s. s \<notin> set [Segment 0 0 2 (- 4)] \<and> s \<notin> set [Segment 0 0 2 4]) ?segs"
    by (simp add: Segment_def)
  have mt: "(1 / 2 :: real) = real_of_int 1 / real_of_int 2" by simp
  show ?thesis
    using C2_classification_partition [of 2 1 "1 / 2", OF _ _ mt l r d] l r by simp
qed

text \<open>
  Claim C10. In a frame of positive dimensions a segment with \<open>x1 = x2\<close> satisfies neither
  criterion, so it is in neither the left nor the right selection: its slope \<open>maxsize\<close>
  is positive, hence not below \<open>- mt\<close>, and it is not below \<open>maxsize\<close>.
\<close>

theorem C10_vertical_dropped:
  assumes "0 < x_n" and "0 < y_n" and "x1 s = x2 s"
  shows "\<not> left_criterion (real_of_int y_n / real_of_int x_n) s
       \<and> \<not> right_criterion (real_of_int y_n / real_of_int x_n) s
       \<and> s \<notin> set (select segs (left_criterion (real_of_int y_n / real_of_int x_n)))
       \<and> s \<notin> set (select segs (right_criterion (real_of_int y_n / real_of_int x_n)))"
proof -
  have sl: "slope s = maxsize" using assms(3) by (rule slope_vertical)
  have "0 < real_of_int y_n / real_of_int x_n" using assms(1,2) by simp
  hence "\<not> left_criterion (real_of_int y_n / real_of_int x_n) s"
    using maxsize_pos by (simp add: left_criterion_def sl)
  moreover have "\<not> right_criterion (real_of_int y_n / real_of_int x_n) s"
    by (simp add: right_criterion_def sl)
  ultimately show ?thesis by (simp add: set_select)
qed

theorem C10_vertical_dropped_witness:
  "(0::int) < 960 \<and> (0::int) < 540 \<and> x1 (Segment 3 0 3 5) = x2 (Segment 3 0 3 5)
   \<and> Segment 3 0 3 5 \<notin> set (select [Segment 3 0 3 5, Segment 0 0 2 4] (left_criterion (540 / 960)))
   \<and> Segment 3 0 3 5 \<notin> set (select [Segment 3 0 3 5, Segment 0 0 2 4] (right_criterion (540 / 960)))"
  using C10_vertical_dropped [of 960 540 "Segment 3 0 3 5" "[Segment 3 0 3 5, Segment 0 0 2 4]"]
  by (simp add: Segment_def)

section \<open>Densification\<close>

lemma dataset_concat:
  "dataset segs =
     (concat (map (\<lambda>s. [x1 s..x2 s]) segs),
      concat (map (\<lambda>s. map (line_call (Line (x1 s) (y1 s) (x2 s) (y2 s))) [x1 s..x2 s]) segs))"
  by (induction segs) (simp_all add: Let_def)

text \<open>
  Claim C9. The point cloud of a list of segments is, segment after segment, the points
  \<open>(x, line x)\<close> for \<open>x\<close> from \<open>x1\<close> to \<open>x2\<close> inclusive, \<open>line\<close> being the line through the
  segment's endpoints. For \<open>x1 \<le> x2\<close> these \<open>x\<close> are the integers of \<open>{x1..x2}\<close>, each
  once: \<open>x2 - x1 + 1\<close> points, so the cloud of normalised segments has the sum of these
  numbers of points.
\<close>

theorem C9_densification:
  "dataset segs =
     (concat (map (\<lambda>s. [x1 s..x2 s]) segs),
      concat (map (\<lambda>s. map (line_call (Line (x1 s) (y1 s) (x2 s) (y2 s))) [x1 s..x2 s]) segs))
   \<and> (\<forall>s \<in> set segs. x1 s \<le> x2 s \<longrightarrow>
         distinct [x1 s..x2 s] \<and> set [x1 s..x2 s] = {x1 s..x2 s}
         \<and> int (length [x1 s..x2 s]) = x2 s - x1 s + 1)
   \<and> ((\<forall>s \<in> set segs. x1 s \<le> x2 s) \<longrightarrow>
         int (length (fst (dataset segs))) = (\<Sum>s\<leftarrow>segs. x2 s - x1 s + 1))
   \<and> length (snd (dataset segs)) = length (fst (dataset segs))"
proof -
  have 1: "(\<forall>s \<in> set segs. x1 s \<le> x2 s) \<Longrightarrow>
         int (length (fst (dataset segs))) = (\<Sum>s\<leftarrow>segs. x2 s - x1 s + 1)"
    unfolding dataset_concat by (induction segs) simp_all
  have 2: "length (snd (dataset segs)) = length (fst (dataset segs))"
    unfolding dataset_concat by (induction segs) simp_all
  show ?thesis using 1 2 dataset_concat [of segs] by simp
qed

theorem C9_densification_witness:
  "x1 (Segment 0 0 2 4) \<le> x2 (Segment 0 0 2 4) \<and> x1 (Segment 1 5 3 1) \<le> x2 (Segment 1 5 3 1)
   \<and> dataset [Segment 0 0 2 4, Segment 1 5 3 1] = ([0, 1, 2, 1, 2, 3], [0, 2, 4, 5, 3, 1])
   \<and> int (length (fst (dataset [Segment 0 0 2 4, Segment 1 5 3 1]))) = (2 - 0 + 1) + (3 - 1 + 1)"
proof -
  have e: "dataset [Segment 0 0 2 4, Segment 1 5 3 1] = ([0, 1, 2, 1, 2, 3], [0, 2, 4, 5, 3, 1])"
    by code_simp
  show ?thesis
    using C9_densification [of "[Segment 0 0 2 4, Segment 1 5 3 1]"] e
    by (simp add: Segment_def)
qed

section \<open>The running estimate\<close>

subsection \<open>One update\<close>

lemma update_absent: "select segs crit = [] \<Longrightarrow> update ransac key segs crit self = Inr self"
  by (simp add: update_def)

lemma update_raises:
  "select segs crit \<noteq> [] \<Longrightarrow> fitted_line ransac (select segs crit) = Inl e
   \<Longrightarrow> update ransac key segs crit self = Inl e"
  by (simp add: update_def)

lemma update_present:
  "select segs crit \<noteq> [] \<Longrightarrow> fitted_line ransac (select segs crit) = Inr u
   \<Longrightarrow> update ransac key segs crit self =
       Inr (self\<lparr>lines := (lines self)(key \<mapsto>
              (case lines self key of None \<Rightarrow> u | Some cur \<Rightarrow> line_update cur u default_lambda))\<rparr>)"
  by (simp add: update_def split: option.splits)

lemma update_other_key:
  "update ransac key segs crit self = Inr self' \<Longrightarrow> k \<noteq> key \<Longrightarrow> lines self' k = lines self k"
  by (auto simp: update_def Let_def split: if_splits sum.splits option.splits)

lemma update_dom:
  "update ransac key segs crit self = Inr self' \<Longrightarrow> dom (lines self) \<subseteq> dom (lines self')"
  by (auto simp: update_def Let_def split: if_splits sum.splits option.splits)

lemma lane_call_dom:
  assumes "lane_call rl rr y_n x_n segs self = Inr self'"
  shows "dom (lines self) \<subseteq> dom (lines self')"
proof -
  from assms obtain mid where
    1: "update rl ''l'' segs (left_criterion (real_of_int y_n / real_of_int x_n)) self = Inr mid"
    and 2: "update rr ''r'' segs (right_criterion (real_of_int y_n / real_of_int x_n)) mid = Inr self'"
    by (auto simp: lane_call_def Let_def split: if_splits sum.splits)
  from update_dom [OF 1] update_dom [OF 2] show ?thesis by blast
qed

lemma process_dom:
  "process frames self = Inr self' \<Longrightarrow> dom (lines self) \<subseteq> dom (lines self')"
proof (induction frames arbitrary: self)
  case Nil
  then show ?case by simp
next
  case (Cons f fs)
  from Cons.prems obtain mid where
    1: "lane_call (ransac_left f) (ransac_right f) (height f) (width f) (hough f) self = Inr mid"
    and 2: "process fs mid = Inr self'"
    by (auto split: sum.splits)
  from lane_call_dom [OF 1] Cons.IH [OF 2] show ?case by blast
qed

subsection \<open>The fitted line\<close>



lemma np_min_nonempty: "X \<noteq> [] \<Longrightarrow> \<exists>xa. np_min X = Inr xa"
  by (cases X) simp_all

lemma np_max_nonempty: "X \<noteq> [] \<Longrightarrow> \<exists>xb. np_max X = Inr xb"
  by (cases X) simp_all

lemma fitted_line_unfold:
  "fitted_line ransac sel =
     (case ransac (fst (dataset sel)) (snd (dataset sel)) of
        Inl e \<Rightarrow> Inl e
      | Inr predict \<Rightarrow>
          (case np_min (fst (dataset sel)) of
             Inl e \<Rightarrow> Inl e
           | Inr xa \<Rightarrow>
               (case np_max (fst (dataset sel)) of
                  Inl e \<Rightarrow> Inl e
                | Inr xb \<Rightarrow> Inr (Line xa (py_int (predict xa)) xb (py_int (predict xb))))))"
  unfolding fitted_line_def Let_def case_prod_beta ..

lemma fitted_line_raises:
  "ransac (fst (dataset sel)) (snd (dataset sel)) = Inl e \<Longrightarrow> fitted_line ransac sel = Inl e"
  by (simp add: fitted_line_unfold)

lemma fitted_line_returns:
  assumes "ransac (fst (dataset sel)) (snd (dataset sel)) = Inr predict"
    and "fst (dataset sel) \<noteq> []"
  shows "\<exists>u. fitted_line ransac sel = Inr u"
proof -
  from np_min_nonempty [OF assms(2)] obtain xa where a: "np_min (fst (dataset sel)) = Inr xa" ..
  from np_max_nonempty [OF assms(2)] obtain xb where b: "np_max (fst (dataset sel)) = Inr xb" ..
  show ?thesis using assms(1) a b
    by (simp add: fitted_line_unfold)
qed

lemma fitted_line_empty_cloud:
  "fst (dataset sel) = [] \<Longrightarrow> \<exists>e. fitted_line ransac sel = Inl e"
  by (auto simp: fitted_line_unfold split: sum.splits)

text \<open>Whatever the regressor does, a non-empty selection with an empty cloud makes \<open>update\<close> raise.\<close>

lemma update_empty_cloud_raises:
  assumes "select segs crit \<noteq> []" and "fst (dataset (select segs crit)) = []"
  shows "\<exists>e. update ransac key segs crit self = Inl e"
proof -
  from fitted_line_empty_cloud [OF assms(2)]
  obtain e where "fitted_line ransac (select segs crit) = Inl e" ..
  with assms(1) have "update ransac key segs crit self = Inl e" by (rule update_raises)
  thus ?thesis ..
qed

subsection \<open>Frames without evidence\<close>

lemma lane_call_absent:
  "x_n \<noteq> 0 \<Longrightarrow> select segs (left_criterion (real_of_int y_n / real_of_int x_n)) = []
   \<Longrightarrow> select segs (right_criterion (real_of_int y_n / real_of_int x_n)) = []
   \<Longrightarrow> lane_call rl rr y_n x_n segs self = Inr self"
  by (simp add: lane_call_def update_absent)

lemma lane_call_left_absent:
  assumes "select segs (left_criterion (real_of_int y_n / real_of_int x_n)) = []"
    and "lane_call rl rr y_n x_n segs self = Inr self'"
  shows "lines self' ''l'' = lines self ''l''"
proof -
  from assms(2) obtain mid where
    1: "update rl ''l'' segs (left_criterion (real_of_int y_n / real_of_int x_n)) self = Inr mid"
    and 2: "update rr ''r'' segs (right_criterion (real_of_int y_n / real_of_int x_n)) mid = Inr self'"
    by (auto simp: lane_call_def Let_def split: if_splits sum.splits)
  from 1 assms(1) have "mid = self" by (simp add: update_absent)
  with update_other_key [OF 2, of "''l''"] show ?thesis by simp
qed

lemma lane_call_right_absent:
  assumes "select segs (right_criterion (real_of_int y_n / real_of_int x_n)) = []"
    and "lane_call rl rr y_n x_n segs self = Inr self'"
  shows "lines self' ''r'' = lines self ''r''"
proof -
  from assms(2) obtain mid where
    1: "update rl ''l'' segs (left_criterion (real_of_int y_n / real_of_int x_n)) self = Inr mid"
    and 2: "update rr ''r'' segs (right_criterion (real_of_int y_n / real_of_int x_n)) mid = Inr self'"
    by (auto simp: lane_call_def Let_def split: if_splits sum.splits)
  from 2 assms(1) have "self' = mid" by (simp add: update_absent)
  with update_other_key [OF 1, of "''r''"] show ?thesis by simp
qed

lemma process_absent:
  "\<forall>f \<in> set frames. width f \<noteq> 0 \<and> select (hough f) (left_criterion (thresh f)) = []
        \<and> select (hough f) (right_criterion (thresh f)) = []
   \<Longrightarrow> process frames self = Inr self"
  by (induction frames) (simp_all add: lane_call_absent)

lemma process_left_absent:
  "\<forall>f \<in> set frames. select (hough f) (left_criterion (thresh f)) = []
   \<Longrightarrow> process frames self = Inr self' \<Longrightarrow> lines self' ''l'' = lines self ''l''"
proof (induction frames arbitrary: self)
  case Nil
  then show ?case by simp
next
  case (Cons f fs)
  from Cons.prems(2) obtain mid where
    1: "lane_call (ransac_left f) (ransac_right f) (height f) (width f) (hough f) self = Inr mid"
    and 2: "process fs mid = Inr self'"
    by (auto split: sum.splits)
  have "lines mid ''l'' = lines self ''l''"
    using Cons.prems(1) 1 by (intro lane_call_left_absent) simp_all
  moreover have "lines self' ''l'' = lines mid ''l''"
    using Cons.prems(1) 2 by (intro Cons.IH) simp_all
  ultimately show ?case by simp
qed

lemma process_right_absent:
  "\<forall>f \<in> set frames. select (hough f) (right_criterion (thresh f)) = []
   \<Longrightarrow> process frames self = Inr self' \<Longrightarrow> lines self' ''r'' = lines self ''r''"
proof (induction frames arbitrary: self)
  case Nil
  then show ?case by simp
next
  case (Cons f fs)
  from Cons.prems(2) obtain mid where
    1: "lane_call (ransac_left f) (ransac_right f) (height f) (width f) (hough f) self = Inr mid"
    and 2: "process fs mid = Inr self'"
    by (auto split: sum.splits)
  have "lines mid ''r'' = lines self ''r''"
    using Cons.prems(1) 1 by (intro lane_call_right_absent) simp_all
  moreover have "lines self' ''r'' = lines mid ''r''"
    using Cons.prems(1) 2 by (intro Cons.IH) simp_all
  ultimately show ?case by simp
qed

subsection \<open>Sample runs\<close>

lemma sample_select_right:
  "select [Segment 0 0 2 4] (right_criterion (1 / 2)) = [Segment 0 0 2 4]"
  by (simp add: select_def right_criterion_def slope_def Segment_def maxsize_def)

lemma sample_select_left:
  "select [Segment 0 0 2 4] (left_criterion (1 / 2)) = []"
  by (simp add: select_def left_criterion_def slope_def Segment_def maxsize_def)

lemma sample_dataset: "dataset [Segment 0 0 2 4] = ([0, 1, 2], [0, 2, 4])"
  by code_simp

lemma sample_fit_a: "fitted_line (line_regressor 2 0) [Segment 0 0 2 4] = Inr \<lparr>m = 2, b = 0\<rparr>"
  by (simp add: fitted_line_unfold sample_dataset line_regressor_def Line_def py_int_def
      del: dataset.simps)

lemma sample_fit_b: "fitted_line (line_regressor 0 4) [Segment 0 0 2 4] = Inr \<lparr>m = 0, b = 4\<rparr>"
  by (simp add: fitted_line_unfold sample_dataset line_regressor_def Line_def py_int_def
      del: dataset.simps)

lemma sample_update_second:
  "update (line_regressor 0 4) ''r'' [Segment 0 0 2 4] (right_criterion (1 / 2))
      \<lparr>lines = [''r'' \<mapsto> \<lparr>m = 2, b = 0\<rparr>]\<rparr>
     = Inr \<lparr>lines = [''r'' \<mapsto> \<lparr>m = 196 / 100, b = 8 / 100\<rparr>]\<rparr>"
  by (simp add: update_def sample_select_right sample_fit_b line_update_def default_lambda_def)

lemma sample_flat_left: "select [Segment 0 0 4 1] (left_criterion (1 / 2)) = []"
  by (simp add: select_def left_criterion_def slope_def Segment_def)

lemma sample_flat_right: "select [Segment 0 0 4 1] (right_criterion (1 / 2)) = []"
  by (simp add: select_def right_criterion_def slope_def Segment_def)

lemma sample_process:
  "process
     [\<lparr>ransac_left = line_regressor 0 0, ransac_right = line_regressor 2 0,
        height = 1, width = 2, hough = [Segment 0 0 2 4]\<rparr>,
      \<lparr>ransac_left = line_regressor 0 0, ransac_right = line_regressor 2 0,
        height = 1, width = 2, hough = [Segment 0 0 2 4]\<rparr>]
     \<lparr>lines = [''l'' \<mapsto> \<lparr>m = - 1, b = 10\<rparr>]\<rparr>
   = Inr \<lparr>lines = [''l'' \<mapsto> \<lparr>m = - 1, b = 10\<rparr>, ''r'' \<mapsto> \<lparr>m = 2, b = 0\<rparr>]\<rparr>"
  by (simp add: lane_call_def update_def sample_select_left sample_select_right sample_fit_a
      line_update_def default_lambda_def)

subsection \<open>Insufficient evidence\<close>




subsection \<open>The two states of a side\<close>

text \<open>
  Claim C3. A side has no estimate while its key is missing from \<open>lines\<close>. When the
  selection is not empty and the fit gives a line, the update returns a state in which: the
  side's line is the fitted line itself if the side had none; it is the smoothing update of
  the side's former line by the fitted line (with the default factor) if it had one; and
  every other side is as before. No update, and no run of frames, removes a side's estimate.
\<close>

theorem C3_estimator_transitions:
  "(select segs crit \<noteq> [] \<and> fitted_line ransac (select segs crit) = Inr fitted \<longrightarrow>
      (\<exists>self'. update ransac key segs crit self = Inr self'
         \<and> (lines self key = None \<longrightarrow> lines self' key = Some fitted)
         \<and> (\<forall>cur. lines self key = Some cur \<longrightarrow>
               lines self' key = Some (line_update cur fitted default_lambda))
         \<and> (\<forall>k. k \<noteq> key \<longrightarrow> lines self' k = lines self k)))
   \<and> (update ransac key segs crit self = Inr self2 \<longrightarrow> dom (lines self) \<subseteq> dom (lines self2))
   \<and> (process frames self = Inr self3 \<longrightarrow> dom (lines self) \<subseteq> dom (lines self3))"
  by (auto simp: update_present dest: update_dom process_dom)

theorem C3_estimator_transitions_witness:
  "select [Segment 0 0 2 4] (right_criterion (1 / 2)) \<noteq> []
   \<and> fitted_line (line_regressor 2 0) (select [Segment 0 0 2 4] (right_criterion (1 / 2)))
       = Inr \<lparr>m = 2, b = 0\<rparr>
   \<and> lines \<lparr>lines = Map.empty\<rparr> ''r'' = None
   \<and> (\<exists>self'. update (line_regressor 2 0) ''r'' [Segment 0 0 2 4] (right_criterion (1 / 2))
                  \<lparr>lines = Map.empty\<rparr> = Inr self'
         \<and> lines self' ''r'' = Some \<lparr>m = 2, b = 0\<rparr>)
   \<and> fitted_line (line_regressor 0 4) (select [Segment 0 0 2 4] (right_criterion (1 / 2)))
       = Inr \<lparr>m = 0, b = 4\<rparr>
   \<and> (\<exists>self'. update (line_regressor 0 4) ''r'' [Segment 0 0 2 4] (right_criterion (1 / 2))
                  \<lparr>lines = [''r'' \<mapsto> \<lparr>m = 2, b = 0\<rparr>]\<rparr> = Inr self'
         \<and> lines self' ''r'' = Some \<lparr>m = 196 / 100, b = 8 / 100\<rparr>
         \<and> lines self' ''l'' = None)
   \<and> update (line_regressor 0 4) ''r'' [Segment 0 0 2 4] (right_criterion (1 / 2))
         \<lparr>lines = [''r'' \<mapsto> \<lparr>m = 2, b = 0\<rparr>]\<rparr>
       = Inr \<lparr>lines = [''r'' \<mapsto> \<lparr>m = 196 / 100, b = 8 / 100\<rparr>]\<rparr>
   \<and> dom (lines \<lparr>lines = [''r'' \<mapsto> \<lparr>m = 2, b = 0\<rparr>]\<rparr>)
       \<subseteq> dom (lines \<lparr>lines = [''r'' \<mapsto> \<lparr>m = 196 / 100, b = 8 / 100\<rparr>]\<rparr>)
   \<and> process
        [\<lparr>ransac_left = line_regressor 0 0, ransac_right = line_regressor 2 0,
           height = 1, width = 2, hough = [Segment 0 0 2 4]\<rparr>,
         \<lparr>ransac_left = line_regressor 0 0, ransac_right = line_regressor 2 0,
           height = 1, width = 2, hough = [Segment 0 0 2 4]\<rparr>]
        \<lparr>lines = [''l'' \<mapsto> \<lparr>m = - 1, b = 10\<rparr>]\<rparr>
      = Inr \<lparr>lines = [''l'' \<mapsto> \<lparr>m = - 1, b = 10\<rparr>, ''r'' \<mapsto> \<lparr>m = 2, b = 0\<rparr>]\<rparr>
   \<and> dom (lines \<lparr>lines = [''l'' \<mapsto> \<lparr>m = - 1, b = 10\<rparr>]\<rparr>)
       \<subseteq> dom (lines \<lparr>lines = [''l'' \<mapsto> \<lparr>m = - 1, b = 10\<rparr>, ''r'' \<mapsto> \<lparr>m = 2, b = 0\<rparr>]\<rparr>)"
proof -
  let ?F = "\<lparr>ransac_left = line_regressor 0 0, ransac_right = line_regressor 2 0,
           height = 1, width = 2, hough = [Segment 0 0 2 4]\<rparr>"
  let ?E = "\<lparr>lines = Map.empty\<rparr>"
  let ?R = "\<lparr>lines = [''r'' \<mapsto> \<lparr>m = 2, b = 0\<rparr>]\<rparr>"
  let ?R' = "\<lparr>lines = [''r'' \<mapsto> \<lparr>m = 196 / 100, b = 8 / 100\<rparr>]\<rparr>"
  let ?S = "\<lparr>lines = [''l'' \<mapsto> \<lparr>m = - 1, b = 10\<rparr>]\<rparr>"
  let ?T = "\<lparr>lines = [''l'' \<mapsto> \<lparr>m = - 1, b = 10\<rparr>, ''r'' \<mapsto> \<lparr>m = 2, b = 0\<rparr>]\<rparr>"
  have a: "fitted_line (line_regressor 2 0) (select [Segment 0 0 2 4] (right_criterion (1 / 2)))
       = Inr \<lparr>m = 2, b = 0\<rparr>"
    by (simp only: sample_select_right sample_fit_a)
  have b: "fitted_line (line_regressor 0 4) (select [Segment 0 0 2 4] (right_criterion (1 / 2)))
       = Inr \<lparr>m = 0, b = 4\<rparr>"
    by (simp only: sample_select_right sample_fit_b)
  have ne: "select [Segment 0 0 2 4] (right_criterion (1 / 2)) \<noteq> []"
    by (simp add: sample_select_right)
  from C3_estimator_transitions [where segs = "[Segment 0 0 2 4]"
      and crit = "right_criterion (1 / 2)" and ransac = "line_regressor 2 0"
      and fitted = "\<lparr>m = 2, b = 0\<rparr>" and key = "''r''" and self = ?E and ?self2.0 = ?R
      and frames = "[]" and ?self3.0 = ?E] ne a
  have 1: "\<exists>self'. update (line_regressor 2 0) ''r'' [Segment 0 0 2 4] (right_criterion (1 / 2)) ?E
                 = Inr self'
         \<and> lines self' ''r'' = Some \<lparr>m = 2, b = 0\<rparr>"
    by auto
  from C3_estimator_transitions [where segs = "[Segment 0 0 2 4]"
      and crit = "right_criterion (1 / 2)" and ransac = "line_regressor 0 4"
      and fitted = "\<lparr>m = 0, b = 4\<rparr>" and key = "''r''" and self = ?R and ?self2.0 = ?R'
      and frames = "[?F, ?F]" and ?self3.0 = ?T] ne b sample_update_second
  have 2: "\<exists>self'. update (line_regressor 0 4) ''r'' [Segment 0 0 2 4] (right_criterion (1 / 2)) ?R
                 = Inr self'
         \<and> lines self' ''r'' = Some \<lparr>m = 196 / 100, b = 8 / 100\<rparr>
         \<and> lines self' ''l'' = None"
    and 3: "dom (lines ?R) \<subseteq> dom (lines ?R')"
    by (auto simp: line_update_def default_lambda_def)
  from C3_estimator_transitions [where segs = "[Segment 0 0 2 4]"
      and crit = "right_criterion (1 / 2)" and ransac = "line_regressor 0 4"
      and fitted = "\<lparr>m = 0, b = 4\<rparr>" and key = "''r''" and self = ?S and ?self2.0 = ?R'
      and frames = "[?F, ?F]" and ?self3.0 = ?T] sample_process
  have 4: "dom (lines ?S) \<subseteq> dom (lines ?T)"
    by blast
  from ne a b 1 2 3 4 sample_update_second sample_process show ?thesis by simp
qed

subsection \<open>Updates without evidence\<close>

text \<open>
  Claim C4. An update whose selection is empty returns the state it was given, unchanged and
  without an exception. Over any number of frames in which no segment qualifies for a side,
  that side's line after the frames is its line before them; and when no segment qualifies
  for either side, the whole state is returned unchanged.
\<close>

theorem C4_absent_update:
  "(select segs crit = [] \<longrightarrow> update ransac key segs crit self = Inr self)
   \<and> ((\<forall>f \<in> set frames. select (hough f) (left_criterion (thresh f)) = [])
        \<and> process frames self = Inr self' \<longrightarrow> lines self' ''l'' = lines self ''l'')
   \<and> ((\<forall>f \<in> set frames. select (hough f) (right_criterion (thresh f)) = [])
        \<and> process frames self = Inr self' \<longrightarrow> lines self' ''r'' = lines self ''r'')
   \<and> ((\<forall>f \<in> set frames. width f \<noteq> 0 \<and> select (hough f) (left_criterion (thresh f)) = []
           \<and> select (hough f) (right_criterion (thresh f)) = [])
        \<longrightarrow> process frames self = Inr self)"
proof (intro conjI impI)
  assume "select segs crit = []"
  thus "update ransac key segs crit self = Inr self" by (rule update_absent)
next
  assume "(\<forall>f \<in> set frames. select (hough f) (left_criterion (thresh f)) = [])
        \<and> process frames self = Inr self'"
  thus "lines self' ''l'' = lines self ''l''" using process_left_absent by blast
next
  assume "(\<forall>f \<in> set frames. select (hough f) (right_criterion (thresh f)) = [])
        \<and> process frames self = Inr self'"
  thus "lines self' ''r'' = lines self ''r''" using process_right_absent by blast
next
  assume "\<forall>f \<in> set frames. width f \<noteq> 0 \<and> select (hough f) (left_criterion (thresh f)) = []
           \<and> select (hough f) (right_criterion (thresh f)) = []"
  thus "process frames self = Inr self" by (rule process_absent)
qed

theorem C4_absent_update_witness:
  "select [Segment 0 0 2 4] (left_criterion (1 / 2)) = []
   \<and> update (line_regressor 0 0) ''l'' [Segment 0 0 2 4] (left_criterion (1 / 2))
        \<lparr>lines = [''l'' \<mapsto> \<lparr>m = - 1, b = 10\<rparr>]\<rparr>
      = Inr \<lparr>lines = [''l'' \<mapsto> \<lparr>m = - 1, b = 10\<rparr>]\<rparr>
   \<and> process
        [\<lparr>ransac_left = line_regressor 0 0, ransac_right = line_regressor 2 0,
           height = 1, width = 2, hough = [Segment 0 0 2 4]\<rparr>,
         \<lparr>ransac_left = line_regressor 0 0, ransac_right = line_regressor 2 0,
           height = 1, width = 2, hough = [Segment 0 0 2 4]\<rparr>]
        \<lparr>lines = [''l'' \<mapsto> \<lparr>m = - 1, b = 10\<rparr>]\<rparr>
      = Inr \<lparr>lines = [''l'' \<mapsto> \<lparr>m = - 1, b = 10\<rparr>, ''r'' \<mapsto> \<lparr>m = 2, b = 0\<rparr>]\<rparr>
   \<and> lines \<lparr>lines = [''l'' \<mapsto> \<lparr>m = - 1, b = 10\<rparr>, ''r'' \<mapsto> \<lparr>m = 2, b = 0\<rparr>]\<rparr> ''l''
      = lines \<lparr>lines = [''l'' \<mapsto> \<lparr>m = - 1, b = 10\<rparr>]\<rparr> ''l''
   \<and> process
        [\<lparr>ransac_left = line_regressor 0 0, ransac_right = line_regressor 2 0,
           height = 1, width = 2, hough = [Segment 0 0 4 1]\<rparr>,
         \<lparr>ransac_left = line_regressor 0 0, ransac_right = line_regressor 2 0,
           height = 1, width = 2, hough = [Segment 0 0 4 1]\<rparr>,
         \<lparr>ransac_left = line_regressor 0 0, ransac_right = line_regressor 2 0,
           height = 1, width = 2, hough = [Segment 0 0 4 1]\<rparr>]
        \<lparr>lines = [''l'' \<mapsto> \<lparr>m = - 1, b = 10\<rparr>]\<rparr>
      = Inr \<lparr>lines = [''l'' \<mapsto> \<lparr>m = - 1, b = 10\<rparr>]\<rparr>"
proof -
  let ?G = "\<lparr>ransac_left = line_regressor 0 0, ransac_right = line_regressor 2 0,
           height = 1, width = 2, hough = [Segment 0 0 4 1]\<rparr>"
  let ?F = "\<lparr>ransac_left = line_regressor 0 0, ransac_right = line_regressor 2 0,
           height = 1, width = 2, hough = [Segment 0 0 2 4]\<rparr>"
  let ?S = "\<lparr>lines = [''l'' \<mapsto> \<lparr>m = - 1, b = 10\<rparr>]\<rparr>"
  let ?T = "\<lparr>lines = [''l'' \<mapsto> \<lparr>m = - 1, b = 10\<rparr>, ''r'' \<mapsto> \<lparr>m = 2, b = 0\<rparr>]\<rparr>"
  have h: "\<forall>f \<in> set [?F, ?F]. select (hough f) (left_criterion (thresh f)) = []"
    by (simp add: sample_select_left)
  from C4_absent_update [where segs = "[Segment 0 0 2 4]" and crit = "left_criterion (1 / 2)"
      and ransac = "line_regressor 0 0" and key = "''l''" and self = ?S and self' = ?T
      and frames = "[?F, ?F]"] h sample_process sample_select_left
  have 1: "lines ?T ''l'' = lines ?S ''l''"
    and 2: "update (line_regressor 0 0) ''l'' [Segment 0 0 2 4] (left_criterion (1 / 2)) ?S = Inr ?S"
    by simp_all
  have g: "\<forall>f \<in> set [?G, ?G, ?G]. width f \<noteq> 0
      \<and> select (hough f) (left_criterion (thresh f)) = []
      \<and> select (hough f) (right_criterion (thresh f)) = []"
    by (simp add: sample_flat_left sample_flat_right)
  from C4_absent_update [where segs = "[Segment 0 0 2 4]" and crit = "left_criterion (1 / 2)"
      and ransac = "line_regressor 0 0" and key = "''l''" and self = ?S and self' = ?T
      and frames = "[?G, ?G, ?G]"] g
  have 3: "process [?G, ?G, ?G] ?S = Inr ?S"
    by blast
  from 1 2 3 sample_process sample_select_left show ?thesis by blast
qed

end
